theory Spec2Isabelle
  imports Complex_Main "HOL-Library.Word"
begin

section \<open>The DDPG agent of \<^verbatim>\<open>DDPG/agent.py\<close>\<close>

text \<open>
  The embedding follows \<^verbatim>\<open>class DDPGAgent\<close> method by method. Conventions:
  \<^item> the floats that pass through the arithmetic of \<^verbatim>\<open>learn\<close> and \<^verbatim>\<open>soft_update\<close> (network
    weights, Q values, TD targets) are values of \<open>fl\<close>: a real number, \<open>+inf\<close>, \<open>-inf\<close> or
    \<open>NaN\<close>, with the sums and products of IEEE arithmetic on them; rounding, overflow of
    finite results and the sign of zero are outside the model;
  \<^item> the other floats (states, actions, rewards, the hyperparameters \<open>gamma\<close> and \<open>tau\<close>)
    are real numbers, and a score is a real number or \<^verbatim>\<open>-np.inf\<close>;
  \<^item> a one-dimensional array, and a column of shape \<^verbatim>\<open>(n, 1)\<close>, is the list of
    its entries; a two-dimensional array of states or actions is the list of its rows;
    a weight tensor is its shape with its entries in row-major order;
  \<^item> every exception the source can raise is a value \<open>Inl e\<close>;
  \<^item> the collaborators that are not part of \<^verbatim>\<open>agent.py\<close> (the Keras networks,
    the environment, the random number generator) are arguments.
\<close>

subsection \<open>Errors\<close>

datatype error = AssertionError | AttributeError | ValueError | IndexError | CollaboratorError

definition bind :: "error + 'a \<Rightarrow> ('a \<Rightarrow> error + 'b) \<Rightarrow> error + 'b" where
  "bind m f = (case m of Inl e \<Rightarrow> Inl e | Inr v \<Rightarrow> f v)"

subsection \<open>Scores: floats with \<^verbatim>\<open>-np.inf\<close>\<close>

datatype score = NegInf | Fin real

instantiation score :: linorder
begin

fun less_eq_score :: "score \<Rightarrow> score \<Rightarrow> bool" where
  "less_eq_score NegInf _ = True"
| "less_eq_score (Fin x) NegInf = False"
| "less_eq_score (Fin x) (Fin y) = (x \<le> y)"

definition less_score :: "score \<Rightarrow> score \<Rightarrow> bool" where
  "less_score a b = (a \<le> b \<and> \<not> b \<le> a)"

instance
proof
  fix a b c :: score
  show "(a < b) = (a \<le> b \<and> \<not> b \<le> a)"
    by (simp add: less_score_def)
  show "a \<le> a"
    by (cases a) simp_all
  show "a \<le> b \<Longrightarrow> b \<le> c \<Longrightarrow> a \<le> c"
    by (cases a; cases b; cases c) simp_all
  show "a \<le> b \<Longrightarrow> b \<le> a \<Longrightarrow> a = b"
    by (cases a; cases b) simp_all
  show "a \<le> b \<or> b \<le> a"
    by (cases a; cases b) auto
qed

end

subsection \<open>Floats\<close>

datatype fl = Finite real | PInf | NInf | NaN

text \<open>\<open>x * inf\<close> for a finite \<open>x\<close>.\<close>

definition times_inf :: "real \<Rightarrow> fl" where
  "times_inf x = (if x = 0 then NaN else if 0 < x then PInf else NInf)"

fun fl_add :: "fl \<Rightarrow> fl \<Rightarrow> fl" where
  "fl_add (Finite x) (Finite y) = Finite (x + y)"
| "fl_add NaN _ = NaN"
| "fl_add _ NaN = NaN"
| "fl_add PInf NInf = NaN"
| "fl_add NInf PInf = NaN"
| "fl_add PInf _ = PInf"
| "fl_add _ PInf = PInf"
| "fl_add NInf _ = NInf"
| "fl_add _ NInf = NInf"

fun fl_mul :: "fl \<Rightarrow> fl \<Rightarrow> fl" where
  "fl_mul (Finite x) (Finite y) = Finite (x * y)"
| "fl_mul NaN _ = NaN"
| "fl_mul _ NaN = NaN"
| "fl_mul (Finite x) PInf = times_inf x"
| "fl_mul PInf (Finite x) = times_inf x"
| "fl_mul (Finite x) NInf = times_inf (- x)"
| "fl_mul NInf (Finite x) = times_inf (- x)"
| "fl_mul PInf PInf = PInf"
| "fl_mul NInf NInf = PInf"
| "fl_mul PInf NInf = NInf"
| "fl_mul NInf PInf = NInf"

fun is_finite :: "fl \<Rightarrow> bool" where
  "is_finite (Finite x) = True"
| "is_finite _ = False"

subsection \<open>numpy arrays\<close>

type_synonym vec = "real list"

text \<open>
  An elementwise binary operator on two one-dimensional arrays (or two columns):
  equal lengths combine entry by entry, a length of one is broadcast, anything else
  raises \<^verbatim>\<open>ValueError\<close>.
\<close>

definition np_elementwise :: "('a \<Rightarrow> 'a \<Rightarrow> 'a) \<Rightarrow> 'a list \<Rightarrow> 'a list \<Rightarrow> error + 'a list" where
  "np_elementwise f xs ys =
     (if length xs = length ys then Inr (map2 f xs ys)
      else if length xs = 1 then Inr (map (f (hd xs)) ys)
      else if length ys = 1 then Inr (map (\<lambda>x. f x (hd ys)) xs)
      else Inl ValueError)"

text \<open>\<^verbatim>\<open>scalar * array\<close>, for a finite scalar, on the entries of the array.\<close>

definition np_scale :: "real \<Rightarrow> fl list \<Rightarrow> fl list" where
  "np_scale c xs = map (fl_mul (Finite c)) xs"

text \<open>An array of floats of any rank: its shape, and its entries in row-major order.\<close>

record tensor =
  shape :: "nat list"
  flat :: "fl list"

text \<open>A tensor has as many entries as its shape says; a weight collection is finite
  when none of its entries is infinite or \<open>NaN\<close>.\<close>

definition wf_tensor :: "tensor \<Rightarrow> bool" where
  "wf_tensor x = (length (flat x) = prod_list (shape x))"

definition finite_weights :: "tensor list \<Rightarrow> bool" where
  "finite_weights ws = list_all (\<lambda>x. list_all is_finite (flat x)) ws"

text \<open>
  Broadcasting. Both functions read shapes from the last axis to the first, as numpy
  aligns them. \<open>broadcast_dims\<close> is the common shape of two shapes: axes must agree or
  be 1, and the shorter shape is extended to the left. \<open>source_index\<close> is the position,
  among the entries of an operand of shape \<open>ds\<close>, of the entry that lands at position
  \<open>k\<close> of the result of shape \<open>rs\<close>: an axis of length 1 is repeated.
\<close>

fun broadcast_dims :: "nat list \<Rightarrow> nat list \<Rightarrow> nat list option" where
  "broadcast_dims [] ys = Some ys"
| "broadcast_dims xs [] = Some xs"
| "broadcast_dims (x # xs) (y # ys) =
     (if x = y \<or> y = 1 then map_option ((#) x) (broadcast_dims xs ys)
      else if x = 1 then map_option ((#) y) (broadcast_dims xs ys)
      else None)"


fun source_index :: "nat list \<Rightarrow> nat list \<Rightarrow> nat \<Rightarrow> nat" where
  "source_index (d # ds) (r # rs) k =
     (if d = 1 then 0 else k mod r) + d * source_index ds rs (k div r)"
| "source_index _ _ k = 0"

text \<open>An elementwise binary operator on two arrays of floats.\<close>

definition np_broadcast :: "(fl \<Rightarrow> fl \<Rightarrow> fl) \<Rightarrow> tensor \<Rightarrow> tensor \<Rightarrow> error + tensor" where
  "np_broadcast f x y =
     (case broadcast_dims (rev (shape x)) (rev (shape y)) of
        None \<Rightarrow> Inl ValueError
      | Some rs \<Rightarrow>
          Inr \<lparr>shape = rev rs,
               flat = map (\<lambda>k. f (flat x ! source_index (rev (shape x)) rs k)
                                 (flat y ! source_index (rev (shape y)) rs k))
                        [0..<prod_list rs]\<rparr>)"

text \<open>
  \<^verbatim>\<open>np.array(model.get_weights())\<close>, in the numpy of the code's time, for a list of
  arrays of rank at least 1:
  \<^item> arrays of one shape \<open>s\<close> are stacked into a float array of shape \<open>n # s\<close>;
  \<^item> arrays of different shapes whose first axes all have the same length cannot be
    stacked: \<^verbatim>\<open>ValueError\<close> (a square kernel next to its bias, for instance);
  \<^item> any other list becomes a one-dimensional array of array objects.
\<close>

datatype ndarray = Dense tensor | Objects "tensor list"

definition same_shapes :: "tensor list \<Rightarrow> bool" where
  "same_shapes ts = list_all (\<lambda>x. shape x = shape (hd ts)) ts"

definition same_first_axis :: "tensor list \<Rightarrow> bool" where
  "same_first_axis ts =
     list_all (\<lambda>x. shape x \<noteq> [] \<and> shape (hd ts) \<noteq> [] \<and> hd (shape x) = hd (shape (hd ts))) ts"

definition stackable :: "tensor list \<Rightarrow> bool" where
  "stackable ts = (same_shapes ts \<or> \<not> same_first_axis ts)"

definition np_array :: "tensor list \<Rightarrow> error + ndarray" where
  "np_array ts =
     (if ts = [] then Inr (Dense \<lparr>shape = [0], flat = []\<rparr>)
      else if same_shapes ts
        then Inr (Dense \<lparr>shape = length ts # shape (hd ts), flat = concat (map flat ts)\<rparr>)
      else if same_first_axis ts then Inl ValueError
      else Inr (Objects ts))"

text \<open>\<^verbatim>\<open>len(array)\<close>.\<close>

fun np_len :: "ndarray \<Rightarrow> nat" where
  "np_len (Dense x) = hd (shape x)"
| "np_len (Objects ts) = length ts"

text \<open>\<^verbatim>\<open>scalar * array\<close>: on an array of objects, the product with each of them.\<close>

fun np_scale_array :: "real \<Rightarrow> ndarray \<Rightarrow> ndarray" where
  "np_scale_array c (Dense x) = Dense (x\<lparr>flat := np_scale c (flat x)\<rparr>)"
| "np_scale_array c (Objects ts) = Objects (map (\<lambda>x. x\<lparr>flat := np_scale c (flat x)\<rparr>) ts)"

text \<open>
  \<^verbatim>\<open>array + array\<close>. Two float arrays are added under broadcasting; two arrays of
  objects of one length are added object by object, each pair under broadcasting. The
  sum of a float array and an array of objects, where numpy can form it, has arrays for
  entries, which no model stores as weights: that case ends in \<^verbatim>\<open>ValueError\<close> too.
\<close>

fun add_objects :: "tensor list \<Rightarrow> tensor list \<Rightarrow> error + tensor list" where
  "add_objects [] [] = Inr []"
| "add_objects (x # xs) (y # ys) =
     bind (np_broadcast fl_add x y) (\<lambda>z. bind (add_objects xs ys) (\<lambda>zs. Inr (z # zs)))"
| "add_objects _ _ = Inl ValueError"

fun np_add :: "ndarray \<Rightarrow> ndarray \<Rightarrow> error + ndarray" where
  "np_add (Dense x) (Dense y) = bind (np_broadcast fl_add x y) (\<lambda>z. Inr (Dense z))"
| "np_add (Objects xs) (Objects ys) = bind (add_objects xs ys) (\<lambda>zs. Inr (Objects zs))"
| "np_add _ _ = Inl ValueError"

text \<open>The arrays that iterating over an array yields: the slices along the first axis
  of a float array, the objects of an array of objects.\<close>

fun np_rows :: "ndarray \<Rightarrow> tensor list" where
  "np_rows (Dense x) =
     (case shape x of
        [] \<Rightarrow> []
      | n # s \<Rightarrow> map (\<lambda>i. \<lparr>shape = s,
                             flat = take (prod_list s) (drop (i * prod_list s) (flat x))\<rparr>)
                   [0..<n])"
| "np_rows (Objects ts) = ts"

subsection \<open>Collaborators\<close>

text \<open>
  A Keras model: its weight collection, and whatever else the backend keeps in it
  (architecture, optimiser state). \<^verbatim>\<open>set_weights\<close> rejects a collection whose
  shapes are not those of the model.
\<close>

record 'k model =
  weights :: "tensor list"
  internals :: 'k

definition get_weights :: "'k model \<Rightarrow> tensor list" where
  "get_weights m = weights m"

definition set_weights :: "'k model \<Rightarrow> tensor list \<Rightarrow> error + 'k model" where
  "set_weights m ws =
     (if map shape ws = map shape (weights m) then Inr (m\<lparr>weights := ws\<rparr>)
      else Inl ValueError)"

text \<open>The four networks an agent owns: \<^verbatim>\<open>self.actor.model\<close>, \<^verbatim>\<open>self.actor_target.model\<close>,
  \<^verbatim>\<open>self.critic.model\<close>, \<^verbatim>\<open>self.critic_target.model\<close>.\<close>

datatype model_ref = Actor | ActorTarget | Critic | CriticTarget

text \<open>A transition, as \<^verbatim>\<open>learn\<close> reads it: \<^verbatim>\<open>e.state\<close>, \<^verbatim>\<open>e.action\<close>, \<^verbatim>\<open>e.reward\<close>,
  \<^verbatim>\<open>e.next_state\<close>, \<^verbatim>\<open>e.done\<close>.\<close>

record experience =
  state :: vec
  action :: vec
  reward :: real
  next_state :: vec
  done_flag :: bool

text \<open>
  Modelled from the spec: the replay buffer of \<^verbatim>\<open>DDPG/tools.py\<close>, which is not among
  the sources. A bounded FIFO store: \<open>add\<close> appends and evicts the oldest entry of a
  full buffer first; \<open>sample\<close> returns the transitions at the positions the random
  number generator picked (\<open>picks\<close>), which the spec constrains to be distinct, in
  range and \<open>min B size\<close> many.
\<close>

record replay_buffer =
  entries :: "experience list"
  capacity :: nat
  sample_size :: nat

definition ReplayBuffer_init :: "nat \<Rightarrow> nat \<Rightarrow> replay_buffer" where
  "ReplayBuffer_init c b = \<lparr>entries = [], capacity = c, sample_size = b\<rparr>"

definition ReplayBuffer_add ::
  "replay_buffer \<Rightarrow> vec \<Rightarrow> vec \<Rightarrow> real \<Rightarrow> vec \<Rightarrow> bool \<Rightarrow> replay_buffer" where
  "ReplayBuffer_add rb s a r s' d =
     (let e = \<lparr>state = s, action = a, reward = r, next_state = s', done_flag = d\<rparr>;
          kept = (if length (entries rb) = capacity rb then tl (entries rb) else entries rb)
      in rb\<lparr>entries := kept @ [e]\<rparr>)"

definition ReplayBuffer_len :: "replay_buffer \<Rightarrow> nat" where
  "ReplayBuffer_len rb = length (entries rb)"

definition valid_picks :: "replay_buffer \<Rightarrow> nat list \<Rightarrow> bool" where
  "valid_picks rb picks =
     (distinct picks \<and> list_all (\<lambda>i. i < length (entries rb)) picks
      \<and> length picks = min (sample_size rb) (length (entries rb)))"

definition ReplayBuffer_sample :: "replay_buffer \<Rightarrow> nat list \<Rightarrow> experience option list" where
  "ReplayBuffer_sample rb picks = map (\<lambda>i. Some (entries rb ! i)) picks"

text \<open>
  Modelled from the spec: the Ornstein-Uhlenbeck noise process of \<^verbatim>\<open>DDPG/tools.py\<close>,
  which is not among the sources. \<open>reset\<close> sets the state to the mean; \<open>sample\<close>
  computes \<open>dx = \<theta> (\<mu> - x) + \<sigma> normal\<close>, sets \<open>x := x + dx\<close> and returns \<open>x\<close>. The
  draws of the random number generator are the argument \<open>rnd\<close>, one per component.
\<close>

record ou_noise =
  ou_size :: nat
  mu :: real
  theta :: real
  sigma :: real
  ou_x :: vec

definition OUNoise_reset :: "ou_noise \<Rightarrow> ou_noise" where
  "OUNoise_reset n = n\<lparr>ou_x := replicate (ou_size n) (mu n)\<rparr>"

definition OUNoise_init :: "nat \<Rightarrow> real \<Rightarrow> real \<Rightarrow> real \<Rightarrow> ou_noise" where
  "OUNoise_init k m t s =
     OUNoise_reset \<lparr>ou_size = k, mu = m, theta = t, sigma = s, ou_x = []\<rparr>"

definition OUNoise_sample :: "(nat \<Rightarrow> real) \<Rightarrow> ou_noise \<Rightarrow> vec \<times> ou_noise" where
  "OUNoise_sample rnd n =
     (let dx = map2 (\<lambda>x g. theta n * (mu n - x) + sigma n * g) (ou_x n) (map rnd [0..<ou_size n]);
          x' = map2 (+) (ou_x n) dx
      in (x', n\<lparr>ou_x := x'\<rparr>))"

text \<open>
  The environment: the attributes \<^verbatim>\<open>__init__\<close> reads from \<^verbatim>\<open>task\<close>, and the simulator
  state \<open>env\<close> that \<^verbatim>\<open>task.reset()\<close> works on.
\<close>

record 't task =
  task_state_size :: nat
  task_action_size :: nat
  task_action_low :: real
  task_action_high :: real
  env :: 't

text \<open>
  The operations of the collaborators, any of which may raise:
  \<^item> \<open>predict\<close>: \<^verbatim>\<open>actor.model.predict\<close> and \<^verbatim>\<open>predict_on_batch\<close>, a batch of states to
    a batch of actions;
  \<^item> \<open>predict_q\<close>: \<^verbatim>\<open>critic_target.model.predict_on_batch([states, actions])\<close>, the
    column of Q values, any of which may be infinite or \<open>NaN\<close>;
  \<^item> \<open>train_on_batch\<close>: \<^verbatim>\<open>critic.model.train_on_batch(x=[states, actions], y=Q_targets)\<close>;
  \<^item> \<open>get_action_gradients\<close>: \<^verbatim>\<open>critic.get_action_gradients([states, actions, 0])\<close>,
    read as the flat list of its entries;
  \<^item> \<open>train_fn\<close>: \<^verbatim>\<open>actor.train_fn([states, action_gradients, 1])\<close>;
  \<^item> \<open>reset_env\<close>: \<^verbatim>\<open>task.reset()\<close>, the initial state and the simulator after it.
\<close>

record ('k, 't) backend =
  predict :: "'k model \<Rightarrow> vec list \<Rightarrow> error + vec list"
  predict_q :: "'k model \<Rightarrow> vec list \<Rightarrow> vec list \<Rightarrow> error + fl list"
  train_on_batch :: "'k model \<Rightarrow> vec list \<Rightarrow> vec list \<Rightarrow> fl list \<Rightarrow> error + 'k model"
  get_action_gradients :: "'k model \<Rightarrow> vec list \<Rightarrow> vec list \<Rightarrow> error + vec"
  train_fn :: "'k model \<Rightarrow> vec list \<Rightarrow> vec list \<Rightarrow> error + 'k model"
  reset_env :: "'t \<Rightarrow> vec \<times> 't"

subsection \<open>The agent\<close>

text \<open>
  The attributes of \<^verbatim>\<open>DDPGAgent\<close>. \<^verbatim>\<open>__init__\<close> assigns neither \<^verbatim>\<open>total_reward\<close> nor
  \<^verbatim>\<open>last_state\<close>: they are \<open>None\<close> until \<^verbatim>\<open>reset_episode\<close> has run, and reading them
  before raises \<^verbatim>\<open>AttributeError\<close>.
\<close>

record ('k, 't) agent =
  task :: "'t task"
  state_size :: nat
  action_size :: nat
  action_low :: real
  action_high :: real
  action_range :: real
  models :: "model_ref \<Rightarrow> 'k model"
  noise_mean :: real
  noise_decay :: real
  noise_variance :: real
  noise :: ou_noise
  buffer_size :: nat
  batch_size :: nat
  memory :: replay_buffer
  gamma :: real
  tau :: real
  best_score :: score
  num_steps :: int
  total_reward :: "real option"
  last_state :: "vec option"

text \<open>\<^verbatim>\<open>soft_update(self, local_model, target_model)\<close>, with assertions enabled. The two
  arguments are references into the agent's networks, so that a call may name the same
  network twice.\<close>

definition soft_update ::
  "('k, 't) agent \<Rightarrow> model_ref \<Rightarrow> model_ref \<Rightarrow> error + ('k, 't) agent" where
  "soft_update a local_model target_model =
     bind (np_array (get_weights (models a local_model))) (\<lambda>local_weights.
     bind (np_array (get_weights (models a target_model))) (\<lambda>target_weights.
       if np_len local_weights \<noteq> np_len target_weights then Inl AssertionError
       else bind (np_add (np_scale_array (tau a) local_weights)
                         (np_scale_array (1 - tau a) target_weights)) (\<lambda>new_weights.
            bind (set_weights (models a target_model) (np_rows new_weights)) (\<lambda>m.
              Inr (a\<lparr>models := (models a)(target_model := m)\<rparr>)))))"

text \<open>
  \<^verbatim>\<open>np.reshape(x, [-1, n])\<close> on the entries \<open>xs\<close> of \<open>x\<close>: rows of \<open>n\<close> entries each;
  \<^verbatim>\<open>ValueError\<close> when the entries do not divide into such rows.
\<close>

definition np_reshape_rows :: "nat \<Rightarrow> vec \<Rightarrow> error + vec list" where
  "np_reshape_rows n xs =
     (if n = 0 \<or> length xs mod n \<noteq> 0 then Inl ValueError
      else Inr (map (\<lambda>i. take n (drop (i * n) xs)) [0..<length xs div n]))"

text \<open>\<^verbatim>\<open>np.vstack(rows)\<close>: at least one row, and all of one length.\<close>

definition np_vstack :: "vec list \<Rightarrow> error + vec list" where
  "np_vstack rows =
     (if rows = [] then Inl ValueError
      else if list_all (\<lambda>r. length r = length (hd rows)) rows then Inr rows
      else Inl ValueError)"

text \<open>\<^verbatim>\<open>np.array(rows).astype(np.float32)\<close>, as its entries in row order: ragged rows
  cannot be cast.\<close>

definition np_array_float :: "vec list \<Rightarrow> error + vec" where
  "np_array_float rows =
     (if list_all (\<lambda>r. length r = length (hd rows)) rows then Inr (concat rows)
      else Inl ValueError)"

text \<open>\<^verbatim>\<open>.astype(np.uint8)\<close> of a Boolean.\<close>

definition uint8_of_bool :: "bool \<Rightarrow> 8 word" where
  "uint8_of_bool b = (if b then 1 else 0)"

text \<open>\<^verbatim>\<open>[... for e in experiences if e is not None]\<close>.\<close>

definition not_None :: "'a option list \<Rightarrow> 'a list" where
  "not_None es = map the (filter (\<lambda>e. e \<noteq> None) es)"

text \<open>\<^verbatim>\<open>get_score(self)\<close>.\<close>

definition get_score :: "('k, 't) agent \<Rightarrow> error + score" where
  "get_score a =
     (if num_steps a = 0 then Inr NegInf
      else case total_reward a of
             None \<Rightarrow> Inl AttributeError
           | Some r \<Rightarrow> Inr (Fin (r / real_of_int (num_steps a))))"

text \<open>\<^verbatim>\<open>reset_episode(self)\<close>: the initial state it returns, and the agent after it.\<close>

definition reset_episode ::
  "('k, 't) backend \<Rightarrow> ('k, 't) agent \<Rightarrow> error + (vec \<times> ('k, 't) agent)" where
  "reset_episode bk a =
     bind (get_score a) (\<lambda>s.
     bind (if s > best_score a
           then bind (get_score a) (\<lambda>s'. Inr (a\<lparr>best_score := s'\<rparr>))
           else Inr a) (\<lambda>a1.
       let a2 = a1\<lparr>noise := OUNoise_reset (noise a1)\<rparr>;
           (s0, env') = reset_env bk (env (task a2));
           a3 = a2\<lparr>task := (task a2)\<lparr>env := env'\<rparr>, last_state := Some s0\<rparr>;
           a4 = a3\<lparr>total_reward := Some 0, num_steps := 0\<rparr>
       in Inr (s0, a4)))"

text \<open>The right-hand side of
  \<^verbatim>\<open>Q_targets = rewards + self.gamma * Q_targets_next * (1 - dones)\<close>, on columns of
  floats; \<open>1 - dones\<close> is computed in \<^verbatim>\<open>uint8\<close>.\<close>

definition Q_targets_of :: "real \<Rightarrow> fl list \<Rightarrow> fl list \<Rightarrow> 8 word list \<Rightarrow> error + fl list" where
  "Q_targets_of g rewards Q_targets_next dones =
     bind (np_elementwise fl_mul (np_scale g Q_targets_next)
             (map (\<lambda>d. Finite (real (unat (1 - d)))) dones))
       (\<lambda>bootstrap. np_elementwise fl_add rewards bootstrap)"

text \<open>The five arrays \<^verbatim>\<open>learn\<close> builds from \<^verbatim>\<open>experiences\<close> (lines 86 to 90).\<close>

record batch =
  states :: "vec list"
  actions :: "vec list"
  rewards :: vec
  dones :: "8 word list"
  next_states :: "vec list"

definition learn_arrays :: "nat \<Rightarrow> experience option list \<Rightarrow> error + batch" where
  "learn_arrays asize experiences =
     bind (np_vstack (map state (not_None experiences))) (\<lambda>sts.
     bind (bind (np_array_float (map action (not_None experiences))) (np_reshape_rows asize)) (\<lambda>acts.
     bind (np_vstack (map next_state (not_None experiences))) (\<lambda>nsts.
       Inr \<lparr>states = sts, actions = acts,
            rewards = map reward (not_None experiences),
            dones = map (\<lambda>e. uint8_of_bool (done_flag e)) (not_None experiences),
            next_states = nsts\<rparr>)))"

text \<open>The TD target of \<^verbatim>\<open>learn\<close> (lines 94 to 98), from the arrays and the target networks.
  The rewards of the batch are real numbers; the Q values are whatever floats the target
  critic returns.\<close>

definition learn_Q_targets :: "('k, 't) backend \<Rightarrow> ('k, 't) agent \<Rightarrow> batch \<Rightarrow> error + fl list" where
  "learn_Q_targets bk a b =
     bind (predict bk (models a ActorTarget) (next_states b)) (\<lambda>actions_next.
     bind (predict_q bk (models a CriticTarget) (next_states b) actions_next) (\<lambda>Q_targets_next.
       Q_targets_of (gamma a) (map Finite (rewards b)) Q_targets_next (dones b)))"

text \<open>The rest of \<^verbatim>\<open>learn\<close> (lines 99 to 107): one training step of the local critic
  on the TD target, one of the local actor on the critic's action gradients, and the
  two soft updates.\<close>

definition learn_update ::
  "('k, 't) backend \<Rightarrow> ('k, 't) agent \<Rightarrow> batch \<Rightarrow> fl list \<Rightarrow> error + ('k, 't) agent" where
  "learn_update bk a b Q_targets =
     bind (train_on_batch bk (models a Critic) (states b) (actions b) Q_targets) (\<lambda>critic'.
     bind (bind (get_action_gradients bk critic' (states b) (actions b))
             (np_reshape_rows (action_size a))) (\<lambda>action_gradients.
     bind (train_fn bk (models a Actor) (states b) action_gradients) (\<lambda>actor'.
     bind (soft_update (a\<lparr>models := (models a)(Critic := critic', Actor := actor')\<rparr>)
             Critic CriticTarget) (\<lambda>a1.
       soft_update a1 Actor ActorTarget))))"

text \<open>\<^verbatim>\<open>learn(self, experiences)\<close>.\<close>

definition learn ::
  "('k, 't) backend \<Rightarrow> ('k, 't) agent \<Rightarrow> experience option list \<Rightarrow> error + ('k, 't) agent" where
  "learn bk a experiences =
     bind (learn_arrays (action_size a) experiences) (\<lambda>b.
     bind (learn_Q_targets bk a b) (\<lambda>Q_targets.
       learn_update bk a b Q_targets))"

text \<open>\<^verbatim>\<open>step(self, action, reward, next_state, done)\<close>; \<open>picks\<close> are the positions
  \<^verbatim>\<open>self.memory.sample()\<close> draws, should it be called.\<close>

definition step ::
  "('k, 't) backend \<Rightarrow> nat list \<Rightarrow> ('k, 't) agent \<Rightarrow> vec \<Rightarrow> real \<Rightarrow> vec \<Rightarrow> bool
     \<Rightarrow> error + ('k, 't) agent" where
  "step bk picks a act_taken r next_st done =
     (case total_reward a of
        None \<Rightarrow> Inl AttributeError
      | Some so_far \<Rightarrow>
          let a1 = a\<lparr>total_reward := Some (so_far + r), num_steps := num_steps a + 1\<rparr>
          in case last_state a1 of
               None \<Rightarrow> Inl AttributeError
             | Some st \<Rightarrow>
                 let a2 = a1\<lparr>memory := ReplayBuffer_add (memory a1) st act_taken r next_st done\<rparr>
                 in bind (if ReplayBuffer_len (memory a2) > batch_size a2
                          then learn bk a2 (ReplayBuffer_sample (memory a2) picks)
                          else Inr a2)
                      (\<lambda>a3. Inr (a3\<lparr>last_state := Some next_st\<rparr>)))"

text \<open>\<^verbatim>\<open>act(self, states)\<close>: the action it returns, and the agent after it (the noise
  process has moved). \<open>sts\<close> are the entries of the argument, \<open>rnd\<close> the draws of
  \<^verbatim>\<open>self.noise.sample()\<close>.\<close>

definition act ::
  "('k, 't) backend \<Rightarrow> (nat \<Rightarrow> real) \<Rightarrow> ('k, 't) agent \<Rightarrow> vec
     \<Rightarrow> error + (vec \<times> ('k, 't) agent)" where
  "act bk rnd a sts =
     bind (np_reshape_rows (state_size a) sts) (\<lambda>st.
     bind (predict bk (models a Actor) st) (\<lambda>predicted.
       case predicted of
         [] \<Rightarrow> Inl IndexError
       | first # _ \<Rightarrow>
           let (x, noise') = OUNoise_sample rnd (noise a)
           in bind (np_elementwise (+) first x) (\<lambda>noisy. Inr (noisy, a\<lparr>noise := noise'\<rparr>))))"

text \<open>
  \<^verbatim>\<open>__init__(self, task)\<close>. \<open>fresh\<close> are the four networks as the constructors
  \<^verbatim>\<open>DDPGActor\<close> and \<^verbatim>\<open>DDPGCritic\<close> built them.
\<close>

definition DDPGAgent_init ::
  "'t task \<Rightarrow> (model_ref \<Rightarrow> 'k model) \<Rightarrow> error + ('k, 't) agent" where
  "DDPGAgent_init tk fresh =
     bind (set_weights (fresh CriticTarget) (get_weights (fresh Critic))) (\<lambda>critic_target.
     bind (set_weights (fresh ActorTarget) (get_weights (fresh Actor))) (\<lambda>actor_target.
       Inr \<lparr>task = tk,
            state_size = task_state_size tk,
            action_size = task_action_size tk,
            action_low = task_action_low tk,
            action_high = task_action_high tk,
            action_range = task_action_high tk - task_action_low tk,
            models = fresh(CriticTarget := critic_target, ActorTarget := actor_target),
            noise_mean = 0,
            noise_decay = 1 / 10,
            noise_variance = 5,
            noise = OUNoise_init (task_action_size tk) 0 (1 / 10) 5,
            buffer_size = 100000,
            batch_size = 16,
            memory = ReplayBuffer_init 100000 16,
            gamma = 99 / 100,
            tau = 1 / 10,
            best_score = NegInf,
            num_steps = 0,
            total_reward = None,
            last_state = None\<rparr>))"

subsection \<open>Sequences of calls\<close>

text \<open>A call of one of the agent's methods with its arguments (and the random draws
  it consumes); a run stops at the first exception.\<close>

datatype call =
    Act "nat \<Rightarrow> real" vec
  | Step "nat list" vec real vec bool
  | Learn "experience option list"
  | GetScore
  | ResetEpisode
  | SoftUpdate model_ref model_ref

fun exec_call :: "('k, 't) backend \<Rightarrow> ('k, 't) agent \<Rightarrow> call \<Rightarrow> error + ('k, 't) agent" where
  "exec_call bk a (Act rnd sts) = bind (act bk rnd a sts) (\<lambda>(_, a'). Inr a')"
| "exec_call bk a (Step picks act_taken r next_st done) = step bk picks a act_taken r next_st done"
| "exec_call bk a (Learn experiences) = learn bk a experiences"
| "exec_call bk a GetScore = bind (get_score a) (\<lambda>_. Inr a)"
| "exec_call bk a ResetEpisode = bind (reset_episode bk a) (\<lambda>(_, a'). Inr a')"
| "exec_call bk a (SoftUpdate l t) = soft_update a l t"

fun run :: "('k, 't) backend \<Rightarrow> ('k, 't) agent \<Rightarrow> call list \<Rightarrow> error + ('k, 't) agent" where
  "run bk a [] = Inr a"
| "run bk a (c # cs) = bind (exec_call bk a c) (\<lambda>a'. run bk a' cs)"

subsection \<open>A concrete agent\<close>

text \<open>A small instance on which the theorems below are evaluated: networks with no
  internals, an actor that answers every state with the action 900, a critic that values
  every pair at 100 and whose training step adds one to each weight.\<close>

definition vector :: "real list \<Rightarrow> tensor" where
  "vector xs = \<lparr>shape = [length xs], flat = map Finite xs\<rparr>"

definition example_model :: "tensor list \<Rightarrow> unit model" where
  "example_model ws = \<lparr>weights = ws, internals = ()\<rparr>"

definition example_backend :: "(unit, unit) backend" where
  "example_backend =
     \<lparr>predict = (\<lambda>m sts. Inr (map (\<lambda>_. [900]) sts)),
      predict_q = (\<lambda>m sts acts. Inr (map (\<lambda>_. Finite 100) sts)),
      train_on_batch = (\<lambda>m sts acts y.
        Inr (m\<lparr>weights := map (\<lambda>x. x\<lparr>flat := map (fl_add (Finite 1)) (flat x)\<rparr>) (weights m)\<rparr>)),
      get_action_gradients = (\<lambda>m sts acts. Inr (concat acts)),
      train_fn = (\<lambda>m sts grads. Inr m),
      reset_env = (\<lambda>e. ([0, 0], e))\<rparr>"

text \<open>The same collaborators after the critic has diverged: every Q value is \<open>+inf\<close>.\<close>

definition diverged_backend :: "(unit, unit) backend" where
  "diverged_backend = example_backend\<lparr>predict_q := (\<lambda>m sts acts. Inr (map (\<lambda>_. PInf) sts))\<rparr>"

definition example_task :: "unit task" where
  "example_task =
     \<lparr>task_state_size = 2, task_action_size = 1, task_action_low = 0,
      task_action_high = 900, env = ()\<rparr>"

definition example_models :: "model_ref \<Rightarrow> unit model" where
  "example_models r =
     (case r of
        Actor \<Rightarrow> example_model [vector [900], vector [3, 4]]
      | ActorTarget \<Rightarrow> example_model [vector [500], vector [6, 7]]
      | Critic \<Rightarrow> example_model [vector [10]]
      | CriticTarget \<Rightarrow> example_model [vector [1, 2, 3]])"

definition example_agent :: "(unit, unit) agent" where
  "example_agent =
     \<lparr>task = example_task, state_size = 2, action_size = 1, action_low = 0,
      action_high = 900, action_range = 900, models = example_models,
      noise_mean = 0, noise_decay = 1 / 10, noise_variance = 5,
      noise = OUNoise_init 1 0 (1 / 10) 5,
      buffer_size = 100000, batch_size = 16, memory = ReplayBuffer_init 100000 16,
      gamma = 99 / 100, tau = 1 / 10, best_score = NegInf, num_steps = 0,
      total_reward = None, last_state = None\<rparr>"

text \<open>A batch as \<open>learn\<close> may receive it: two transitions, the first of them terminal,
  between empty slots.\<close>

definition example_experiences :: "experience option list" where
  "example_experiences =
     [None,
      Some \<lparr>state = [0, 0], action = [1], reward = 10, next_state = [1, 1], done_flag = True\<rparr>,
      None,
      Some \<lparr>state = [1, 1], action = [2], reward = 5, next_state = [2, 2], done_flag = False\<rparr>]"

definition example_batch :: batch where
  "example_batch =
     \<lparr>states = [[0, 0], [1, 1]], actions = [[1], [2]], rewards = [10, 5],
      dones = [1, 0], next_states = [[1, 1], [2, 2]]\<rparr>"

section \<open>Properties\<close>

subsection \<open>Auxiliary facts\<close>

lemma bind_Inr [simp]: "bind (Inr v) f = f v"
  by (simp add: bind_def)

lemma bind_Inl [simp]: "bind (Inl e) f = Inl e"
  by (simp add: bind_def)

lemma bind_eq_Inr: "bind m f = Inr y \<longleftrightarrow> (\<exists>v. m = Inr v \<and> f v = Inr y)"
  by (cases m) simp_all


lemma fl_add_zero_right [simp]: "fl_add x (Finite 0) = x"
  by (cases x) simp_all

lemma fl_add_zero_left [simp]: "fl_add (Finite 0) x = x"
  by (cases x) simp_all

lemma fl_mul_one_left [simp]: "fl_mul (Finite 1) x = x"
  by (cases x) (simp_all add: times_inf_def)

lemma fl_mul_zero_finite: "is_finite x \<Longrightarrow> fl_mul (Finite 0) x = Finite 0"
  by (cases x) simp_all

lemma fl_mul_finite_zero: "is_finite x \<Longrightarrow> fl_mul x (Finite 0) = Finite 0"
  by (cases x) simp_all

lemma fl_convex_finite:
  "is_finite x \<Longrightarrow> fl_add (fl_mul (Finite c) x) (fl_mul (Finite (1 - c)) x) = x"
  by (cases x) (simp_all add: algebra_simps)

lemma broadcast_dims_same [simp]: "broadcast_dims r r = Some r"
  by (induction r) simp_all

lemma source_index_same: "k < prod_list r \<Longrightarrow> source_index r r k = k"
proof (induction r arbitrary: k)
  case Nil
  then show ?case by simp
next
  case (Cons d ds)
  show ?case
  proof (cases "d = 1")
    case True
    with Cons show ?thesis by simp
  next
    case False
    from Cons.prems have "0 < d"
      by (cases "d = 0") simp_all
    with Cons.prems have "k div d < prod_list ds"
      by (simp add: less_mult_imp_div_less mult.commute)
    from Cons.IH [OF this] False show ?thesis
      by simp
  qed
qed

lemma map_nth_pairs:
  assumes "length xs = n" and "length ys = n"
  shows "map (\<lambda>k. f (xs ! k) (ys ! k)) [0..<n] = map2 f xs ys"
  using assms by (simp add: list_eq_iff_nth_eq)

lemma np_broadcast_same_shape:
  assumes "shape x = shape y" and "wf_tensor x" and "wf_tensor y"
  shows "np_broadcast f x y = Inr \<lparr>shape = shape y, flat = map2 f (flat x) (flat y)\<rparr>"
proof -
  define r where "r = rev (shape y)"
  have n: "length (flat x) = prod_list r" "length (flat y) = prod_list r"
    using assms by (simp_all add: wf_tensor_def r_def prod_list.rev)
  have "map (\<lambda>k. f (flat x ! source_index r r k) (flat y ! source_index r r k)) [0..<prod_list r]
        = map (\<lambda>k. f (flat x ! k) (flat y ! k)) [0..<prod_list r]"
    by (simp add: source_index_same)
  also have "\<dots> = map2 f (flat x) (flat y)"
    using n by (rule map_nth_pairs)
  finally have "map (\<lambda>k. f (flat x ! source_index r r k) (flat y ! source_index r r k))
                  [0..<prod_list r] = map2 f (flat x) (flat y)" .
  moreover have "rev r = shape y"
    by (simp add: r_def)
  ultimately show ?thesis
    using assms(1) by (simp add: np_broadcast_def r_def [symmetric])
qed



lemma upt_Suc_shift: "[0..<Suc k] = 0 # map Suc [0..<k]"
  by (simp add: upt_conv_Cons map_Suc_upt del: upt_Suc)

lemma chunks_concat:
  "list_all (\<lambda>r. length r = n) rows \<Longrightarrow>
   map (\<lambda>i. take n (drop (i * n) (concat rows))) [0..<length rows] = rows"
proof (induction rows)
  case Nil
  show ?case by simp
next
  case (Cons r rows)
  then have "map (\<lambda>i. take n (drop (i * n) (concat rows))) [0..<length rows] = rows"
    and r: "length r = n"
    by simp_all
  then show ?case
    by (simp add: upt_Suc_shift comp_def del: upt_Suc)
qed

lemma length_concat_rows:
  "list_all (\<lambda>r. length r = n) rows \<Longrightarrow> length (concat rows) = length rows * n"
  by (induction rows) simp_all

lemma nth_chunk:
  assumes "list_all (\<lambda>r. length r = n) rows" and "i < length rows"
  shows "take n (drop (i * n) (concat rows)) = rows ! i"
proof -
  have "map (\<lambda>i. take n (drop (i * n) (concat rows))) [0..<length rows] ! i = rows ! i"
    by (simp only: chunks_concat [OF assms(1)])
  with assms(2) show ?thesis
    by simp
qed


lemma np_array_stackable: "(\<exists>arr. np_array ts = Inr arr) \<longleftrightarrow> stackable ts"
  by (auto simp: np_array_def stackable_def same_shapes_def)

lemma np_array_not_stackable: "\<not> stackable ts \<Longrightarrow> np_array ts = Inl ValueError"
  by (auto simp: np_array_def stackable_def same_shapes_def)

lemma np_array_len: "np_array ts = Inr arr \<Longrightarrow> np_len arr = length ts"
  by (auto simp: np_array_def split: if_splits)

lemma same_shapes_alt: "same_shapes ts = list_all (\<lambda>s. s = hd (map shape ts)) (map shape ts)"
  by (cases ts) (simp_all add: same_shapes_def list_all_iff)

lemma same_first_axis_alt:
  "same_first_axis ts =
     list_all (\<lambda>s. s \<noteq> [] \<and> hd (map shape ts) \<noteq> [] \<and> hd s = hd (hd (map shape ts))) (map shape ts)"
  by (cases ts) (simp_all add: same_first_axis_def list_all_iff)

lemma same_shapes_cong: "map shape xs = map shape ys \<Longrightarrow> same_shapes xs = same_shapes ys"
  by (simp add: same_shapes_alt)

lemma stackable_cong: "map shape xs = map shape ys \<Longrightarrow> stackable xs = stackable ys"
  by (simp add: stackable_def same_shapes_alt same_first_axis_alt)





lemma set_weights_Inr:
  "set_weights m ws = Inr m' \<Longrightarrow> m' = m\<lparr>weights := ws\<rparr> \<and> map shape ws = map shape (weights m)"
  by (auto simp: set_weights_def split: if_splits)

text \<open>What a returning call of \<open>soft_update\<close> has done.\<close>

lemma soft_update_Inr:
  assumes "soft_update a l t = Inr a'"
  shows "\<exists>la ta new.
           np_array (weights (models a l)) = Inr la
         \<and> np_array (weights (models a t)) = Inr ta
         \<and> length (weights (models a l)) = length (weights (models a t))
         \<and> np_add (np_scale_array (tau a) la) (np_scale_array (1 - tau a) ta) = Inr new
         \<and> map shape (np_rows new) = map shape (weights (models a t))
         \<and> a' = a\<lparr>models := (models a)(t := (models a t)\<lparr>weights := np_rows new\<rparr>)\<rparr>"
proof -
  from assms obtain la ta where la: "np_array (weights (models a l)) = Inr la"
    and ta: "np_array (weights (models a t)) = Inr ta"
    and rest: "(if np_len la \<noteq> np_len ta then Inl AssertionError
       else bind (np_add (np_scale_array (tau a) la) (np_scale_array (1 - tau a) ta)) (\<lambda>new_weights.
            bind (set_weights (models a t) (np_rows new_weights)) (\<lambda>m.
              Inr (a\<lparr>models := (models a)(t := m)\<rparr>)))) = Inr a'"
    by (auto simp: soft_update_def get_weights_def bind_eq_Inr)
  from rest have len: "np_len la = np_len ta"
    by (simp split: if_splits)
  with rest obtain new m where new: "np_add (np_scale_array (tau a) la) (np_scale_array (1 - tau a) ta) = Inr new"
    and m: "set_weights (models a t) (np_rows new) = Inr m"
    and a': "a' = a\<lparr>models := (models a)(t := m)\<rparr>"
    by (auto simp: bind_eq_Inr)
  from len have "length (weights (models a l)) = length (weights (models a t))"
    by (simp add: np_array_len [OF la] np_array_len [OF ta])
  with la ta new set_weights_Inr [OF m] a' show ?thesis
    by blast
qed

lemma soft_update_only_models:
  "soft_update a l t = Inr a' \<Longrightarrow> a' = a\<lparr>models := models a'\<rparr>"
  by (drule soft_update_Inr) auto

lemma scale_add_pairs:
  "map2 fl_add (np_scale c xs) (np_scale d ys)
   = map2 (\<lambda>u v. fl_add (fl_mul (Finite c) u) (fl_mul (Finite d) v)) xs ys"
  by (simp add: np_scale_def zip_map_map split_def)

lemma length_np_scale [simp]: "length (np_scale c xs) = length xs"
  by (simp add: np_scale_def)

lemma scaled_pair_same_shape:
  assumes "shape x = shape y" and "wf_tensor x" and "wf_tensor y"
  shows "np_broadcast fl_add (x\<lparr>flat := np_scale c (flat x)\<rparr>) (y\<lparr>flat := np_scale d (flat y)\<rparr>)
         = Inr \<lparr>shape = shape y,
                flat = map2 (\<lambda>u v. fl_add (fl_mul (Finite c) u) (fl_mul (Finite d) v))
                         (flat x) (flat y)\<rparr>"
proof -
  have "wf_tensor (x\<lparr>flat := np_scale c (flat x)\<rparr>)" "wf_tensor (y\<lparr>flat := np_scale d (flat y)\<rparr>)"
    using assms(2,3) by (simp_all add: wf_tensor_def)
  moreover have "shape (x\<lparr>flat := np_scale c (flat x)\<rparr>) = shape (y\<lparr>flat := np_scale d (flat y)\<rparr>)"
    using assms(1) by simp
  ultimately show ?thesis
    by (simp add: np_broadcast_same_shape scale_add_pairs)
qed

lemma add_objects_same_shapes:
  assumes "list_all2 (\<lambda>x y. shape x = shape y \<and> wf_tensor x \<and> wf_tensor y) xs ys"
  shows "add_objects (map (\<lambda>x. x\<lparr>flat := np_scale c (flat x)\<rparr>) xs)
                     (map (\<lambda>y. y\<lparr>flat := np_scale d (flat y)\<rparr>) ys)
         = Inr (map2 (\<lambda>x y. \<lparr>shape = shape y,
                              flat = map2 (\<lambda>u v. fl_add (fl_mul (Finite c) u) (fl_mul (Finite d) v))
                                       (flat x) (flat y)\<rparr>) xs ys)"
  using assms
proof (induction xs ys rule: list_all2_induct)
  case Nil
  show ?case by simp
next
  case (Cons x xs y ys)
  then show ?case
    by (simp add: scaled_pair_same_shape)
qed

lemma pairs_list_all2:
  assumes "map shape xs = map shape ys" and "list_all wf_tensor xs" and "list_all wf_tensor ys"
  shows "list_all2 (\<lambda>x y. shape x = shape y \<and> wf_tensor x \<and> wf_tensor y) xs ys"
proof -
  from assms(1) have len: "length xs = length ys"
    by (rule map_eq_imp_length_eq)
  have "shape (xs ! i) = shape (ys ! i)" if "i < length xs" for i
  proof -
    from that len have "map shape xs ! i = shape (xs ! i)" "map shape ys ! i = shape (ys ! i)"
      by simp_all
    with assms(1) show ?thesis by simp
  qed
  with len assms(2,3) show ?thesis
    by (simp add: list_all2_conv_all_nth list_all_length)
qed

lemma dense_rows_same_shapes:
  assumes sh: "map shape xs = map shape ys"
    and wx: "list_all wf_tensor xs" and wy: "list_all wf_tensor ys"
    and ss: "same_shapes xs" and ne: "xs \<noteq> []"
  shows "\<exists>new. np_add (np_scale_array c (Dense \<lparr>shape = length xs # shape (hd xs),
                                                  flat = concat (map flat xs)\<rparr>))
                       (np_scale_array d (Dense \<lparr>shape = length ys # shape (hd ys),
                                                  flat = concat (map flat ys)\<rparr>)) = Inr new
          \<and> np_rows new = map2 (\<lambda>x y. \<lparr>shape = shape y,
                              flat = map2 (\<lambda>u v. fl_add (fl_mul (Finite c) u) (fl_mul (Finite d) v))
                                       (flat x) (flat y)\<rparr>) xs ys"
proof -
  define s where "s = shape (hd xs)"
  define m where "m = prod_list s"
  define n where "n = length xs"
  define g where "g = (\<lambda>u v. fl_add (fl_mul (Finite c) u) (fl_mul (Finite d) v))"
  from sh have len: "length ys = n"
    unfolding n_def by (rule map_eq_imp_length_eq [symmetric])
  from ne len have ney: "ys \<noteq> []"
    by (auto simp: n_def)
  from sh ne ney have hds: "shape (hd ys) = s"
    by (cases xs; cases ys) (simp_all add: s_def)
  from ss have sx: "list_all (\<lambda>x. shape x = s) xs"
    by (simp add: same_shapes_def s_def)
  have sy: "list_all (\<lambda>y. shape y = s) ys"
  proof -
    from sx have "list_all (\<lambda>z. z = s) (map shape xs)"
      by (simp add: list_all_iff)
    with sh show ?thesis
      by (simp add: list_all_iff)
  qed
  from sx wx have lx: "list_all (\<lambda>r. length r = m) (map flat xs)"
    by (auto simp: list_all_iff wf_tensor_def m_def)
  from sy wy have ly: "list_all (\<lambda>r. length r = m) (map flat ys)"
    by (auto simp: list_all_iff wf_tensor_def m_def)
  define X where "X = \<lparr>shape = n # s, flat = concat (map flat xs)\<rparr>"
  define Y where "Y = \<lparr>shape = n # s, flat = concat (map flat ys)\<rparr>"
  have wX: "wf_tensor X" and wY: "wf_tensor Y"
    using length_concat_rows [OF lx] length_concat_rows [OF ly] len
    by (simp_all add: wf_tensor_def X_def Y_def n_def m_def)
  have shXY: "shape X = shape Y"
    by (simp add: X_def Y_def)
  define new where "new = \<lparr>shape = n # s, flat = map2 g (flat X) (flat Y)\<rparr>"
  have sum: "np_add (np_scale_array c (Dense X)) (np_scale_array d (Dense Y)) = Inr (Dense new)"
    using scaled_pair_same_shape [OF shXY wX wY, of c d]
    by (simp add: new_def g_def Y_def)
  have rows: "np_rows (Dense new)
              = map (\<lambda>i. \<lparr>shape = s, flat = take m (drop (i * m) (map2 g (flat X) (flat Y)))\<rparr>) [0..<n]"
    by (simp add: new_def m_def)
  have "np_rows (Dense new) = map2 (\<lambda>x y. \<lparr>shape = shape y, flat = map2 g (flat x) (flat y)\<rparr>) xs ys"
  proof (unfold rows, rule nth_equalityI)
    show "length (map (\<lambda>i. \<lparr>shape = s, flat = take m (drop (i * m) (map2 g (flat X) (flat Y)))\<rparr>) [0..<n])
          = length (map2 (\<lambda>x y. \<lparr>shape = shape y, flat = map2 g (flat x) (flat y)\<rparr>) xs ys)"
      by (simp add: len n_def)
  next
    fix i
    assume "i < length (map (\<lambda>i. \<lparr>shape = s, flat = take m (drop (i * m) (map2 g (flat X) (flat Y)))\<rparr>) [0..<n])"
    then have i: "i < n"
      by simp
    then have ix: "i < length (map flat xs)" and iy: "i < length (map flat ys)"
      by (simp_all add: n_def len)
    have "take m (drop (i * m) (map2 g (flat X) (flat Y)))
          = map2 g (take m (drop (i * m) (flat X))) (take m (drop (i * m) (flat Y)))"
      by (simp add: take_map drop_map take_zip drop_zip)
    also have "take m (drop (i * m) (flat X)) = flat (xs ! i)"
      using nth_chunk [OF lx ix] i by (simp add: X_def n_def)
    also have "take m (drop (i * m) (flat Y)) = flat (ys ! i)"
      using nth_chunk [OF ly iy] i by (simp add: Y_def len)
    finally have "take m (drop (i * m) (map2 g (flat X) (flat Y))) = map2 g (flat (xs ! i)) (flat (ys ! i))" .
    moreover from sy i len have "shape (ys ! i) = s"
      by (simp add: list_all_length)
    ultimately show "map (\<lambda>i. \<lparr>shape = s, flat = take m (drop (i * m) (map2 g (flat X) (flat Y)))\<rparr>) [0..<n] ! i
          = map2 (\<lambda>x y. \<lparr>shape = shape y, flat = map2 g (flat x) (flat y)\<rparr>) xs ys ! i"
      using i len by (simp add: n_def)
  qed
  with sum show ?thesis
    unfolding X_def Y_def n_def s_def g_def len [unfolded n_def, symmetric] hds [unfolded s_def]
    by (simp add: len n_def hds s_def)
qed

lemma same_first_axis_cong:
  "map shape xs = map shape ys \<Longrightarrow> same_first_axis xs = same_first_axis ys"
  by (simp add: same_first_axis_alt)

lemma map_shape_pairs:
  "length xs = length ys \<Longrightarrow>
   map shape (map2 (\<lambda>x y. \<lparr>shape = shape y, flat = h x y\<rparr>) xs ys) = map shape ys"
  by (induction xs ys rule: list_induct2) simp_all

lemma np_soft_rows:
  assumes sh: "map shape xs = map shape ys"
    and wx: "list_all wf_tensor xs" and wy: "list_all wf_tensor ys"
    and st: "stackable xs"
  shows "\<exists>la ta new. np_array xs = Inr la \<and> np_array ys = Inr ta
           \<and> np_add (np_scale_array c la) (np_scale_array d ta) = Inr new
           \<and> np_rows new = map2 (\<lambda>x y. \<lparr>shape = shape y,
                              flat = map2 (\<lambda>u v. fl_add (fl_mul (Finite c) u) (fl_mul (Finite d) v))
                                       (flat x) (flat y)\<rparr>) xs ys"
proof -
  from sh have len: "length xs = length ys"
    by (rule map_eq_imp_length_eq)
  consider (empty) "xs = []" | (dense) "xs \<noteq> []" "same_shapes xs"
    | (objects) "xs \<noteq> []" "\<not> same_shapes xs" "\<not> same_first_axis xs"
    using st by (auto simp: stackable_def)
  then show ?thesis
  proof cases
    case empty
    with len have "ys = []" by simp
    with empty show ?thesis
      by (simp add: np_array_def np_broadcast_def np_scale_def)
  next
    case dense
    from dense(1) len have ney: "ys \<noteq> []" by auto
    from dense(2) have "same_shapes ys"
      by (simp add: same_shapes_cong [OF sh])
    with dense ney have
      "np_array xs = Inr (Dense \<lparr>shape = length xs # shape (hd xs), flat = concat (map flat xs)\<rparr>)"
      "np_array ys = Inr (Dense \<lparr>shape = length ys # shape (hd ys), flat = concat (map flat ys)\<rparr>)"
      by (simp_all add: np_array_def)
    with dense_rows_same_shapes [OF sh wx wy dense(2) dense(1), of c d] show ?thesis
      by auto
  next
    case objects
    from objects(1) len have ney: "ys \<noteq> []" by auto
    from objects(2,3) have "\<not> same_shapes ys" "\<not> same_first_axis ys"
      by (simp_all add: same_shapes_cong [OF sh] same_first_axis_cong [OF sh])
    with objects ney have "np_array xs = Inr (Objects xs)" "np_array ys = Inr (Objects ys)"
      by (simp_all add: np_array_def)
    with add_objects_same_shapes [OF pairs_list_all2 [OF sh wx wy], of c d] show ?thesis
      by simp
  qed
qed

lemma soft_update_same_shape:
  assumes sh: "map shape (weights (models a l)) = map shape (weights (models a t))"
    and wl: "list_all wf_tensor (weights (models a l))"
    and wt: "list_all wf_tensor (weights (models a t))"
    and st: "stackable (weights (models a l))"
  shows "soft_update a l t =
         Inr (a\<lparr>models := (models a)(t := (models a t)\<lparr>weights :=
                map2 (\<lambda>x y. \<lparr>shape = shape y,
                              flat = map2 (\<lambda>u v. fl_add (fl_mul (Finite (tau a)) u)
                                                       (fl_mul (Finite (1 - tau a)) v))
                                       (flat x) (flat y)\<rparr>)
                  (weights (models a l)) (weights (models a t))\<rparr>)\<rparr>)"
proof -
  define ws where "ws = map2 (\<lambda>x y. \<lparr>shape = shape y,
                              flat = map2 (\<lambda>u v. fl_add (fl_mul (Finite (tau a)) u)
                                                       (fl_mul (Finite (1 - tau a)) v))
                                       (flat x) (flat y)\<rparr>)
                  (weights (models a l)) (weights (models a t))"
  from sh have len: "length (weights (models a l)) = length (weights (models a t))"
    by (rule map_eq_imp_length_eq)
  from np_soft_rows [OF sh wl wt st, of "tau a" "1 - tau a"] obtain la ta new where
    la: "np_array (weights (models a l)) = Inr la"
    and ta: "np_array (weights (models a t)) = Inr ta"
    and new: "np_add (np_scale_array (tau a) la) (np_scale_array (1 - tau a) ta) = Inr new"
    and rows: "np_rows new = ws"
    unfolding ws_def by blast
  have "np_len la = np_len ta"
    using len by (simp add: np_array_len [OF la] np_array_len [OF ta])
  moreover have "map shape ws = map shape (weights (models a t))"
    unfolding ws_def using len by (rule map_shape_pairs)
  then have "set_weights (models a t) ws = Inr ((models a t)\<lparr>weights := ws\<rparr>)"
    by (simp add: set_weights_def)
  ultimately have "soft_update a l t = Inr (a\<lparr>models := (models a)(t := (models a t)\<lparr>weights := ws\<rparr>)\<rparr>)"
    by (simp add: soft_update_def get_weights_def la ta new rows)
  then show ?thesis
    by (simp only: ws_def)
qed

lemma blend_zero:
  assumes "length us = length vs" and "list_all is_finite us"
  shows "map2 (\<lambda>u v. fl_add (fl_mul (Finite 0) u) (fl_mul (Finite (1 - 0)) v)) us vs = vs"
  using assms by (induction us vs rule: list_induct2) (simp_all add: fl_mul_zero_finite)

lemma blend_one:
  assumes "length us = length vs" and "list_all is_finite vs"
  shows "map2 (\<lambda>u v. fl_add (fl_mul (Finite 1) u) (fl_mul (Finite (1 - 1)) v)) us vs = us"
  using assms by (induction us vs rule: list_induct2) (simp_all add: fl_mul_zero_finite)

lemma blend_same:
  "list_all is_finite us \<Longrightarrow>
   map2 (\<lambda>u v. fl_add (fl_mul (Finite c) u) (fl_mul (Finite (1 - c)) v)) us us = us"
  by (induction us) (simp_all add: fl_convex_finite)

lemma weights_blend_zero:
  assumes "list_all2 (\<lambda>x y. shape x = shape y \<and> wf_tensor x \<and> wf_tensor y) xs ys"
    and "finite_weights xs"
  shows "map2 (\<lambda>x y. \<lparr>shape = shape y,
                       flat = map2 (\<lambda>u v. fl_add (fl_mul (Finite 0) u) (fl_mul (Finite (1 - 0)) v))
                                (flat x) (flat y)\<rparr>) xs ys = ys"
  using assms
proof (induction xs ys rule: list_all2_induct)
  case Nil
  show ?case by simp
next
  case (Cons x xs y ys)
  then have "length (flat x) = length (flat y)" and "list_all is_finite (flat x)"
    by (simp_all add: wf_tensor_def finite_weights_def)
  from blend_zero [OF this] Cons show ?case
    by (simp add: finite_weights_def)
qed

lemma weights_blend_one:
  assumes "list_all2 (\<lambda>x y. shape x = shape y \<and> wf_tensor x \<and> wf_tensor y) xs ys"
    and "finite_weights ys"
  shows "map2 (\<lambda>x y. \<lparr>shape = shape y,
                       flat = map2 (\<lambda>u v. fl_add (fl_mul (Finite 1) u) (fl_mul (Finite (1 - 1)) v))
                                (flat x) (flat y)\<rparr>) xs ys = xs"
  using assms
proof (induction xs ys rule: list_all2_induct)
  case Nil
  show ?case by simp
next
  case (Cons x xs y ys)
  then have "length (flat x) = length (flat y)" and "list_all is_finite (flat y)"
    by (simp_all add: wf_tensor_def finite_weights_def)
  from blend_one [OF this] Cons show ?case
    by (simp add: finite_weights_def)
qed

lemma weights_blend_same:
  "finite_weights ws \<Longrightarrow>
   map2 (\<lambda>x y. \<lparr>shape = shape y,
                 flat = map2 (\<lambda>u v. fl_add (fl_mul (Finite c) u) (fl_mul (Finite (1 - c)) v))
                          (flat x) (flat y)\<rparr>) ws ws = ws"
  by (induction ws) (simp_all add: finite_weights_def blend_same)










lemma ex_w [simp]:
  "weights (example_models Actor) = [vector [900], vector [3, 4]]"
  "weights (example_models ActorTarget) = [vector [500], vector [6, 7]]"
  "weights (example_models Critic) = [vector [10]]"
  "weights (example_models CriticTarget) = [vector [1, 2, 3]]"
  by (simp_all add: example_models_def example_model_def)

lemma upt_3: "[0..<3] = [0, 1, 2]"
  by code_simp

subsection \<open>Soft update\<close>

text \<open>
  Claim C2, as stated, fails. The update is a sum of two products, and a product with
  zero does not erase an infinite or \<open>NaN\<close> weight: with \<open>tau = 1\<close>, a local weight 3 and a
  target weight \<open>+inf\<close>, the new target weight is \<open>1 * 3 + 0 * inf = NaN\<close>, not the local
  weight.
\<close>

theorem soft_update_nan_counterexample:
  "soft_update
     (example_agent\<lparr>tau := 1,
        models := example_models
          (Critic := example_model [vector [3]],
           CriticTarget := example_model [\<lparr>shape = [1], flat = [PInf]\<rparr>])\<rparr>)
     Critic CriticTarget
   = Inr (example_agent\<lparr>tau := 1,
        models := example_models
          (Critic := example_model [vector [3]],
           CriticTarget := example_model [\<lparr>shape = [1], flat = [NaN]\<rparr>])\<rparr>)
   \<and> example_model [\<lparr>shape = [1], flat = [NaN]\<rparr>] \<noteq> example_model [vector [3]]"
  by (simp add: soft_update_def example_agent_def get_weights_def set_weights_def
      np_array_def same_shapes_def np_scale_def np_broadcast_def times_inf_def
      example_model_def vector_def)

text \<open>
  Claim C2, amended. Let the local and the target model hold well-formed tensors of the
  same shapes, in a list that \<^verbatim>\<open>np.array\<close> can turn into an array. Then \<open>soft_update\<close>
  returns and has set every target tensor to \<open>tau * local + (1 - tau) * target\<close>, entry by
  entry in float arithmetic. With \<open>tau = 0\<close> and finite local weights the call changes
  nothing at all; with \<open>tau = 1\<close> and finite target weights the target's weights are the
  local ones.
\<close>

theorem soft_update_rule:
  assumes "map shape (get_weights (models a l)) = map shape (get_weights (models a t))"
    and "list_all wf_tensor (get_weights (models a l))"
    and "list_all wf_tensor (get_weights (models a t))"
    and "stackable (get_weights (models a l))"
  shows "soft_update a l t =
           Inr (a\<lparr>models := (models a)(t := (models a t)\<lparr>weights :=
                  map2 (\<lambda>x y. \<lparr>shape = shape y,
                                flat = map2 (\<lambda>u v. fl_add (fl_mul (Finite (tau a)) u)
                                                         (fl_mul (Finite (1 - tau a)) v))
                                         (flat x) (flat y)\<rparr>)
                    (get_weights (models a l)) (get_weights (models a t))\<rparr>)\<rparr>)
       \<and> (finite_weights (get_weights (models a l))
            \<longrightarrow> soft_update (a\<lparr>tau := 0\<rparr>) l t = Inr (a\<lparr>tau := 0\<rparr>))
       \<and> (finite_weights (get_weights (models a t))
            \<longrightarrow> soft_update (a\<lparr>tau := 1\<rparr>) l t =
                 Inr (a\<lparr>tau := 1,
                        models := (models a)(t := (models a t)\<lparr>weights := get_weights (models a l)\<rparr>)\<rparr>))"
proof -
  have sh: "map shape (weights (models a l)) = map shape (weights (models a t))"
    and wl: "list_all wf_tensor (weights (models a l))"
    and wt: "list_all wf_tensor (weights (models a t))"
    and st: "stackable (weights (models a l))"
    using assms by (simp_all add: get_weights_def)
  note pairs = pairs_list_all2 [OF sh wl wt]
  have A: "soft_update a l t =
           Inr (a\<lparr>models := (models a)(t := (models a t)\<lparr>weights :=
                  map2 (\<lambda>x y. \<lparr>shape = shape y,
                                flat = map2 (\<lambda>u v. fl_add (fl_mul (Finite (tau a)) u)
                                                         (fl_mul (Finite (1 - tau a)) v))
                                         (flat x) (flat y)\<rparr>)
                    (get_weights (models a l)) (get_weights (models a t))\<rparr>)\<rparr>)"
    unfolding get_weights_def using sh wl wt st by (rule soft_update_same_shape)
  have B: "soft_update (a\<lparr>tau := 0\<rparr>) l t = Inr (a\<lparr>tau := 0\<rparr>)"
    if "finite_weights (get_weights (models a l))"
  proof -
    have "(models a)(t := (models a t)\<lparr>weights := weights (models a t)\<rparr>) = models a"
      by (rule ext) simp
    with soft_update_same_shape [of "a\<lparr>tau := 0\<rparr>" l t] sh wl wt st
      weights_blend_zero [OF pairs] that
    show ?thesis
      by (simp add: get_weights_def)
  qed
  have C: "soft_update (a\<lparr>tau := 1\<rparr>) l t =
                 Inr (a\<lparr>tau := 1,
                        models := (models a)(t := (models a t)\<lparr>weights := get_weights (models a l)\<rparr>)\<rparr>)"
    if "finite_weights (get_weights (models a t))"
    using soft_update_same_shape [of "a\<lparr>tau := 1\<rparr>" l t] sh wl wt st
      weights_blend_one [OF pairs] that
    by (simp add: get_weights_def)
  from A B C show ?thesis
    by blast
qed

theorem soft_update_rule_witness:
  "map shape (get_weights (models example_agent Actor))
     = map shape (get_weights (models example_agent ActorTarget))
   \<and> list_all wf_tensor (get_weights (models example_agent Actor))
   \<and> list_all wf_tensor (get_weights (models example_agent ActorTarget))
   \<and> stackable (get_weights (models example_agent Actor))
   \<and> finite_weights (get_weights (models example_agent Actor))
   \<and> finite_weights (get_weights (models example_agent ActorTarget))
   \<and> soft_update example_agent Actor ActorTarget =
       Inr (example_agent\<lparr>models := example_models
              (ActorTarget := example_model [vector [540], vector [57 / 10, 67 / 10]])\<rparr>)
   \<and> soft_update (example_agent\<lparr>tau := 0\<rparr>) Actor ActorTarget = Inr (example_agent\<lparr>tau := 0\<rparr>)
   \<and> soft_update (example_agent\<lparr>tau := 1\<rparr>) Actor ActorTarget =
       Inr (example_agent\<lparr>tau := 1, models := example_models
              (ActorTarget := example_model [vector [900], vector [3, 4]])\<rparr>)"
proof -
  have 1: "map shape (get_weights (models example_agent Actor))
     = map shape (get_weights (models example_agent ActorTarget))"
    and 2: "list_all wf_tensor (get_weights (models example_agent Actor))"
    and 3: "list_all wf_tensor (get_weights (models example_agent ActorTarget))"
    and 4: "stackable (get_weights (models example_agent Actor))"
    and 5: "finite_weights (get_weights (models example_agent Actor))"
    and 6: "finite_weights (get_weights (models example_agent ActorTarget))"
    by (simp_all add: example_agent_def get_weights_def vector_def wf_tensor_def stackable_def
        same_shapes_def same_first_axis_def finite_weights_def)
  from soft_update_rule [OF 1 2 3 4] 5 6 1 2 3 4 show ?thesis
    by (simp add: example_agent_def get_weights_def example_model_def example_models_def vector_def)
qed

text \<open>
  The amended claim says nothing of the lists that \<^verbatim>\<open>np.array\<close> refuses. There the call
  raises in its first line, also when both models have the same shapes: a square kernel
  next to its bias is such a list.
\<close>

lemma soft_update_square_kernel:
  "soft_update
     (example_agent\<lparr>models := example_models
        (Actor := example_model
           [\<lparr>shape = [2, 2], flat = [Finite 1, Finite 2, Finite 3, Finite 4]\<rparr>, vector [5, 6]],
         ActorTarget := example_model
           [\<lparr>shape = [2, 2], flat = [Finite 1, Finite 2, Finite 3, Finite 4]\<rparr>, vector [5, 6]])\<rparr>)
     Actor ActorTarget
   = Inl ValueError"
  by (simp add: soft_update_def example_agent_def get_weights_def
      np_array_def same_shapes_def same_first_axis_def example_model_def vector_def)




text \<open>
  Claim C10. A call of \<open>soft_update\<close> that returns leaves the local model's weights
  as they were (for a local model other than the target; and also when the call names
  one model twice, if its weights are finite), leaves every model other than the target
  untouched, changes nothing of the target but its weights, and changes no other
  attribute of the agent.
\<close>

theorem soft_update_frame:
  assumes "soft_update a l t = Inr a'"
  shows "(l \<noteq> t \<or> list_all wf_tensor (get_weights (models a l))
                  \<and> finite_weights (get_weights (models a l))
           \<longrightarrow> get_weights (models a' l) = get_weights (models a l))
       \<and> (\<forall>r. r \<noteq> t \<longrightarrow> models a' r = models a r)
       \<and> internals (models a' t) = internals (models a t)
       \<and> a' = a\<lparr>models := models a'\<rparr>
       \<and> gamma a' = gamma a \<and> tau a' = tau a
       \<and> memory a' = memory a \<and> noise a' = noise a
       \<and> total_reward a' = total_reward a \<and> num_steps a' = num_steps a
       \<and> best_score a' = best_score a \<and> last_state a' = last_state a"
proof -
  from soft_update_Inr [OF assms] obtain la new where
    a': "a' = a\<lparr>models := (models a)(t := (models a t)\<lparr>weights := np_rows new\<rparr>)\<rparr>"
    and la: "np_array (weights (models a l)) = Inr la"
    by blast
  have "weights (models a' l) = weights (models a l)"
    if "l \<noteq> t \<or> list_all wf_tensor (get_weights (models a l))
                  \<and> finite_weights (get_weights (models a l))"
  proof (cases "l = t")
    case False
    with a' show ?thesis by simp
  next
    case True
    with that have wf: "list_all wf_tensor (weights (models a t))"
      and fin: "finite_weights (weights (models a t))"
      by (simp_all add: get_weights_def)
    from la True have st: "stackable (weights (models a t))"
      using np_array_stackable by blast
    from soft_update_same_shape [OF refl wf wf st] assms True
    have "a' = a\<lparr>models := (models a)(t := (models a t)\<lparr>weights := weights (models a t)\<rparr>)\<rparr>"
      by (simp add: weights_blend_same [OF fin])
    with True show ?thesis by simp
  qed
  with a' show ?thesis
    by (simp add: get_weights_def)
qed

theorem soft_update_frame_witness:
  "soft_update example_agent Actor ActorTarget
     = Inr (example_agent\<lparr>models := example_models
              (ActorTarget := example_model [vector [540], vector [57 / 10, 67 / 10]])\<rparr>)
   \<and> Actor \<noteq> ActorTarget
   \<and> get_weights ((example_models
              (ActorTarget := example_model [vector [540], vector [57 / 10, 67 / 10]])) Actor)
     = get_weights (example_models Actor)"
proof -
  have 1: "map shape (weights (models example_agent Actor))
     = map shape (weights (models example_agent ActorTarget))"
    and 2: "list_all wf_tensor (weights (models example_agent Actor))"
    and 3: "list_all wf_tensor (weights (models example_agent ActorTarget))"
    and 4: "stackable (weights (models example_agent Actor))"
    by (simp_all add: example_agent_def vector_def wf_tensor_def stackable_def
        same_shapes_def same_first_axis_def)
  have r: "soft_update example_agent Actor ActorTarget
     = Inr (example_agent\<lparr>models := example_models
              (ActorTarget := example_model [vector [540], vector [57 / 10, 67 / 10]])\<rparr>)"
    using soft_update_same_shape [OF 1 2 3 4]
    by (simp add: example_agent_def example_model_def example_models_def vector_def)
  from soft_update_frame [OF r] r show ?thesis
    by (simp add: example_agent_def)
qed

subsection \<open>Scores and episodes\<close>

text \<open>
  Claim C4. \<open>get_score\<close> returns \<open>-inf\<close> whenever \<open>num_steps\<close> is 0, as a value and not
  as an exception, even when \<open>total_reward\<close> was never assigned; otherwise it returns
  \<open>total_reward / num_steps\<close>, for instance 3 for a total of 30 over 10 steps. The
  sentinel is below every score.
\<close>

theorem get_score_sentinel:
  "(num_steps a = 0 \<longrightarrow> get_score a = Inr NegInf)
   \<and> (num_steps a \<noteq> 0 \<longrightarrow> total_reward a = Some r
        \<longrightarrow> get_score a = Inr (Fin (r / real_of_int (num_steps a))))
   \<and> get_score (a\<lparr>total_reward := Some 30, num_steps := 10\<rparr>) = Inr (Fin 3)
   \<and> NegInf \<le> s"
  by (simp add: get_score_def)

theorem get_score_sentinel_witness:
  "num_steps example_agent = 0 \<and> get_score example_agent = Inr NegInf
   \<and> num_steps (example_agent\<lparr>total_reward := Some 7, num_steps := 2\<rparr>) \<noteq> 0
   \<and> get_score (example_agent\<lparr>total_reward := Some 7, num_steps := 2\<rparr>) = Inr (Fin (7 / 2))"
  using get_score_sentinel [of example_agent]
    get_score_sentinel [of "example_agent\<lparr>total_reward := Some 7, num_steps := 2\<rparr>" 7]
  by (simp add: example_agent_def)

text \<open>
  Claim C6. When \<open>get_score\<close> returns the score \<open>s\<close> of the episode that ends,
  \<open>reset_episode\<close> returns the initial state that \<open>task.reset()\<close> gave, and the agent
  after it has \<open>best_score = max best_score s\<close>, a reset noise process, that initial
  state as \<open>last_state\<close>, and \<open>total_reward\<close> and \<open>num_steps\<close> at 0.
\<close>

theorem reset_episode_effect:
  assumes "get_score a = Inr s"
  shows "reset_episode bk a =
         Inr (fst (reset_env bk (env (task a))),
              a\<lparr>best_score := max (best_score a) s,
                noise := OUNoise_reset (noise a),
                task := (task a)\<lparr>env := snd (reset_env bk (env (task a)))\<rparr>,
                last_state := Some (fst (reset_env bk (env (task a)))),
                total_reward := Some 0,
                num_steps := 0\<rparr>)"
proof (cases "s > best_score a")
  case True
  then have "max (best_score a) s = s"
    by (auto simp: max_def)
  with True assms show ?thesis
    by (simp add: reset_episode_def Let_def split_def)
next
  case False
  then have "max (best_score a) s = best_score a"
    by (auto simp: max_def)
  with False assms show ?thesis
    by (simp add: reset_episode_def Let_def split_def)
qed

theorem reset_episode_effect_witness:
  "get_score (example_agent\<lparr>total_reward := Some 7, num_steps := 2\<rparr>) = Inr (Fin (7 / 2))
   \<and> reset_episode example_backend (example_agent\<lparr>total_reward := Some 7, num_steps := 2\<rparr>) =
       Inr ([0, 0], example_agent\<lparr>best_score := Fin (7 / 2), last_state := Some [0, 0],
                         total_reward := Some 0, num_steps := 0\<rparr>)"
proof -
  have g: "get_score (example_agent\<lparr>total_reward := Some 7, num_steps := 2\<rparr>) = Inr (Fin (7 / 2))"
    by (simp add: get_score_def)
  from reset_episode_effect [OF g, of example_backend] g show ?thesis
    by (simp add: example_agent_def example_backend_def example_task_def OUNoise_init_def
        OUNoise_reset_def max_def)
qed

subsection \<open>The arrays and the TD target of learn\<close>

lemma not_None_filter: "map Some (not_None es) = filter (\<lambda>e. e \<noteq> None) es"
  by (induction es) (auto simp: not_None_def)

lemma concat_chunks:
  "length xs = k * n \<Longrightarrow> concat (map (\<lambda>i. take n (drop (i * n) xs)) [0..<k]) = xs"
proof (induction k arbitrary: xs)
  case 0
  then show ?case by simp
next
  case (Suc k)
  have "length (drop n xs) = k * n"
    using Suc.prems by simp
  from Suc.IH [OF this]
  have "concat (map (\<lambda>i. take n (drop (n + i * n) xs)) [0..<k]) = drop n xs"
    by (simp add: add.commute)
  then show ?case
    by (simp add: upt_Suc_shift comp_def del: upt_Suc)
qed

lemma np_reshape_rows_Inr:
  assumes "np_reshape_rows n xs = Inr rows"
  shows "concat rows = xs \<and> list_all (\<lambda>r. length r = n) rows"
proof -
  from assms have n: "0 < n" and m: "length xs mod n = 0"
    and rows: "rows = map (\<lambda>i. take n (drop (i * n) xs)) [0..<length xs div n]"
    by (auto simp: np_reshape_rows_def split: if_splits)
  from m have "n dvd length xs"
    by (simp add: mod_eq_0_iff_dvd)
  then have len: "length xs = (length xs div n) * n"
    by simp
  have "concat rows = xs"
    unfolding rows using len by (rule concat_chunks)
  moreover have "list_all (\<lambda>r. length r = n) rows"
  proof -
    have "length (take n (drop (i * n) xs)) = n" if "i < length xs div n" for i
    proof -
      from that have "Suc i \<le> length xs div n" by simp
      then have "Suc i * n \<le> (length xs div n) * n"
        by (rule mult_le_mono1)
      with len have "i * n + n \<le> length xs" by simp
      then show ?thesis by simp
    qed
    then show ?thesis
      by (simp add: rows list_all_iff)
  qed
  ultimately show ?thesis ..
qed

lemma np_reshape_rows_concat:
  assumes "0 < n" and "list_all (\<lambda>r. length r = n) rows"
  shows "np_reshape_rows n (concat rows) = Inr rows"
  using assms
  by (simp add: np_reshape_rows_def length_concat_rows chunks_concat)

lemma np_vstack_Inr: "np_vstack rows = Inr r \<Longrightarrow> r = rows"
  by (simp add: np_vstack_def split: if_splits)

lemma np_array_float_Inr: "np_array_float rows = Inr xs \<Longrightarrow> xs = concat rows"
  by (simp add: np_array_float_def split: if_splits)

lemma learn_arrays_Inr:
  assumes "learn_arrays asize experiences = Inr b"
  shows "states b = map state (not_None experiences)
       \<and> concat (actions b) = concat (map action (not_None experiences))
       \<and> list_all (\<lambda>row. length row = asize) (actions b)
       \<and> rewards b = map reward (not_None experiences)
       \<and> dones b = map (\<lambda>e. uint8_of_bool (done_flag e)) (not_None experiences)
       \<and> next_states b = map next_state (not_None experiences)"
proof -
  from assms obtain sts flat acts nsts where
    "np_vstack (map state (not_None experiences)) = Inr sts"
    "np_array_float (map action (not_None experiences)) = Inr flat"
    "np_reshape_rows asize flat = Inr acts"
    "np_vstack (map next_state (not_None experiences)) = Inr nsts"
    and b: "b = \<lparr>states = sts, actions = acts,
            rewards = map reward (not_None experiences),
            dones = map (\<lambda>e. uint8_of_bool (done_flag e)) (not_None experiences),
            next_states = nsts\<rparr>"
    by (auto simp: learn_arrays_def bind_eq_Inr)
  then have "sts = map state (not_None experiences)"
    "flat = concat (map action (not_None experiences))"
    "concat acts = flat \<and> list_all (\<lambda>r. length r = asize) acts"
    "nsts = map next_state (not_None experiences)"
    by (simp_all add: np_vstack_Inr np_array_float_Inr np_reshape_rows_Inr)
  with b show ?thesis
    by simp
qed

lemma list_all_hd_map:
  "xs \<noteq> [] \<Longrightarrow> list_all (\<lambda>r. length r = length (hd (map f xs))) (map f xs)
     = list_all (\<lambda>e. length (f e) = length (f (hd xs))) xs"
  by (cases xs) (simp_all add: list_all_iff)

text \<open>
  Claim C8. The entries \<open>learn\<close> reads are exactly the non-\<open>None\<close> elements of
  \<open>experiences\<close>, in their order. Whenever the five arrays are built, states, rewards,
  dones and next states hold one row per such element, the actions hold the same
  entries in rows of \<open>action_size\<close>, and every done is the indicator 0 or 1 of the flag.
  They are built, with one action per row, whenever there is at least one such element,
  the states and the next states each have one length, and every action has
  \<open>action_size > 0\<close> entries.
\<close>

theorem learn_arrays_non_None:
  "map Some (not_None experiences) = filter (\<lambda>e. e \<noteq> None) experiences
   \<and> (\<forall>b. learn_arrays asize experiences = Inr b \<longrightarrow>
          states b = map state (not_None experiences)
        \<and> concat (actions b) = concat (map action (not_None experiences))
        \<and> list_all (\<lambda>row. length row = asize) (actions b)
        \<and> rewards b = map reward (not_None experiences)
        \<and> dones b = map (\<lambda>e. if done_flag e then 1 else 0) (not_None experiences)
        \<and> next_states b = map next_state (not_None experiences))
   \<and> (not_None experiences \<noteq> [] \<and> 0 < asize
        \<and> list_all (\<lambda>e. length (state e) = length (state (hd (not_None experiences))))
             (not_None experiences)
        \<and> list_all (\<lambda>e. length (action e) = asize) (not_None experiences)
        \<and> list_all (\<lambda>e. length (next_state e) = length (next_state (hd (not_None experiences))))
             (not_None experiences)
      \<longrightarrow> learn_arrays asize experiences =
            Inr \<lparr>states = map state (not_None experiences),
                 actions = map action (not_None experiences),
                 rewards = map reward (not_None experiences),
                 dones = map (\<lambda>e. if done_flag e then 1 else 0) (not_None experiences),
                 next_states = map next_state (not_None experiences)\<rparr>)"
proof -
  define es where "es = not_None experiences"
  have A: "map Some es = filter (\<lambda>e. e \<noteq> None) experiences"
    unfolding es_def by (rule not_None_filter)
  have B: "states b = map state es
        \<and> concat (actions b) = concat (map action es)
        \<and> list_all (\<lambda>row. length row = asize) (actions b)
        \<and> rewards b = map reward es
        \<and> dones b = map (\<lambda>e. if done_flag e then 1 else 0) es
        \<and> next_states b = map next_state es"
    if "learn_arrays asize experiences = Inr b" for b
    using learn_arrays_Inr [OF that] by (simp add: uint8_of_bool_def es_def)
  have C: "learn_arrays asize experiences =
            Inr \<lparr>states = map state es, actions = map action es, rewards = map reward es,
                 dones = map (\<lambda>e. if done_flag e then 1 else 0) es,
                 next_states = map next_state es\<rparr>"
    if ne: "es \<noteq> []" and pos: "0 < asize"
      and st: "list_all (\<lambda>e. length (state e) = length (state (hd es))) es"
      and ac: "list_all (\<lambda>e. length (action e) = asize) es"
      and ns: "list_all (\<lambda>e. length (next_state e) = length (next_state (hd es))) es"
  proof -
    have 1: "np_vstack (map state es) = Inr (map state es)"
      using ne st by (simp add: np_vstack_def list_all_hd_map)
    have 2: "np_vstack (map next_state es) = Inr (map next_state es)"
      using ne ns by (simp add: np_vstack_def list_all_hd_map)
    have ac': "list_all (\<lambda>r. length r = asize) (map action es)"
      using ac by (simp add: list_all_iff)
    have "list_all (\<lambda>e. length (action e) = length (action (hd es))) es"
      using ac ne by (cases es) (simp_all add: list_all_iff)
    then have 3: "np_array_float (map action es) = Inr (concat (map action es))"
      using ne by (simp add: np_array_float_def list_all_hd_map)
    have 4: "np_reshape_rows asize (concat (map action es)) = Inr (map action es)"
      using pos ac' by (rule np_reshape_rows_concat)
    show ?thesis
      unfolding learn_arrays_def es_def [symmetric]
      by (simp add: 1 2 3 4 uint8_of_bool_def)
  qed
  from A B C show ?thesis
    unfolding es_def by blast
qed

theorem learn_arrays_non_None_witness:
  "not_None example_experiences \<noteq> []
   \<and> learn_arrays 1 example_experiences =
       Inr \<lparr>states = [[0, 0], [1, 1]], actions = [[1], [2]], rewards = [10, 5],
            dones = [1, 0], next_states = [[1, 1], [2, 2]]\<rparr>
   \<and> dones \<lparr>states = [[0, 0], [1, 1]], actions = [[1], [2]], rewards = [10, 5],
            dones = [1, 0], next_states = [[1, 1], [2, 2]]\<rparr>
       = map (\<lambda>e. if done_flag e then 1 else 0) (not_None example_experiences)"
  using learn_arrays_non_None [of example_experiences 1]
  by (simp add: example_experiences_def not_None_def)

lemma Q_targets_of_same_length:
  assumes "length qs = length rs" and "length ds = length rs"
  shows "Q_targets_of g rs qs ds =
         Inr (map2 fl_add rs
                (map2 fl_mul (np_scale g qs) (map (\<lambda>d. Finite (real (unat (1 - d)))) ds)))"
  using assms by (simp add: Q_targets_of_def np_elementwise_def)

lemma Q_targets_nth:
  assumes "length qs = length rs" and "length ds = length rs" and "i < length rs"
  shows "map2 fl_add rs
           (map2 fl_mul (np_scale g qs) (map (\<lambda>d. Finite (real (unat (1 - d)))) ds)) ! i
         = fl_add (rs ! i) (fl_mul (fl_mul (Finite g) (qs ! i)) (Finite (real (unat (1 - ds ! i)))))"
  using assms by (simp add: np_scale_def)

lemma terminal_target:
  "fl_add (Finite r) (fl_mul (fl_mul (Finite g) q) (Finite 0))
   = (if is_finite q then Finite r else NaN)"
  by (cases q) (simp_all add: times_inf_def)

text \<open>
  The terminal case of line 98 does not depend on the reward being finite: whatever float the
  reward column holds at a terminal row, a finite \<open>Q_targets_next\<close> there leaves it as the
  target.
\<close>

lemma Q_targets_of_terminal:
  assumes "length qs = length rs" and "length ds = length rs" and "i < length rs"
    and "ds ! i = 1" and "is_finite (qs ! i)"
  shows "\<exists>Q. Q_targets_of g rs qs ds = Inr Q \<and> Q ! i = rs ! i"
proof -
  from assms(5) have "fl_mul (fl_mul (Finite g) (qs ! i)) (Finite 0) = Finite 0"
    by (cases "qs ! i") simp_all
  with assms(4) have "fl_add (rs ! i) (fl_mul (fl_mul (Finite g) (qs ! i))
                        (Finite (real (unat (1 - ds ! i))))) = rs ! i"
    by simp
  with Q_targets_of_same_length [OF assms(1,2), of g] Q_targets_nth [OF assms(1,2,3), of g]
  show ?thesis
    by simp
qed

text \<open>
  Claim C1, as stated, fails. The bootstrap term is masked by a product, and
  \<open>gamma * inf * 0\<close> is \<open>NaN\<close>: for a terminal transition with reward 10 whose
  \<open>Q_targets_next\<close> is \<open>+inf\<close>, the TD target is \<open>NaN\<close> and not 10.
\<close>

theorem learn_Q_targets_nan_counterexample:
  "Q_targets_of (gamma example_agent) [Finite 10] [PInf] [uint8_of_bool True] = Inr [NaN]
   \<and> learn_arrays (action_size example_agent) example_experiences = Inr example_batch
   \<and> done_flag (not_None example_experiences ! 0)
   \<and> reward (not_None example_experiences ! 0) = 10
   \<and> learn_Q_targets diverged_backend example_agent example_batch = Inr [NaN, PInf]"
  by (simp add: Q_targets_of_def np_elementwise_def np_scale_def times_inf_def uint8_of_bool_def
      learn_Q_targets_def learn_arrays_def example_agent_def example_experiences_def
      example_batch_def diverged_backend_def example_backend_def
      not_None_def np_vstack_def np_array_float_def np_reshape_rows_def)

text \<open>
  Claim C1, amended. For the arrays \<open>learn\<close> has built, and a column \<open>Q_targets_next\<close> of
  the target critic with one value per transition, \<open>learn\<close> trains the local critic on the
  column \<open>Q_targets\<close> with
  \<open>Q_targets[i] = reward[i] + gamma * Q_targets_next[i] * (1 - done[i])\<close> in float
  arithmetic. For a terminal transition this is the reward itself whenever
  \<open>Q_targets_next[i]\<close> is finite (and \<open>gamma\<close> is at most 1 in absolute value, as the
  agent's 0.99 is, so that the product stays in the finite range), and \<open>NaN\<close> when
  \<open>Q_targets_next[i]\<close> is infinite or \<open>NaN\<close>.
\<close>

theorem learn_Q_targets_terminal:
  assumes "learn_arrays (action_size a) experiences = Inr b"
    and "predict bk (models a ActorTarget) (next_states b) = Inr actions_next"
    and "predict_q bk (models a CriticTarget) (next_states b) actions_next = Inr Q_targets_next"
    and "length Q_targets_next = length (not_None experiences)"
  shows "\<exists>Q_targets.
           learn_Q_targets bk a b = Inr Q_targets
         \<and> learn bk a experiences = learn_update bk a b Q_targets
         \<and> length Q_targets = length (not_None experiences)
         \<and> (\<forall>i < length (not_None experiences).
              Q_targets ! i
                = fl_add (Finite (reward (not_None experiences ! i)))
                    (fl_mul (fl_mul (Finite (gamma a)) (Q_targets_next ! i))
                       (Finite (1 - (if done_flag (not_None experiences ! i) then 1 else 0))))
              \<and> (done_flag (not_None experiences ! i) \<and> is_finite (Q_targets_next ! i)
                     \<and> \<bar>gamma a\<bar> \<le> 1
                   \<longrightarrow> Q_targets ! i = Finite (reward (not_None experiences ! i)))
              \<and> (done_flag (not_None experiences ! i) \<and> \<not> is_finite (Q_targets_next ! i)
                   \<longrightarrow> Q_targets ! i = NaN))"
proof -
  define es where "es = not_None experiences"
  define Q where
    "Q = map2 fl_add (map Finite (rewards b))
           (map2 fl_mul (np_scale (gamma a) Q_targets_next)
              (map (\<lambda>d. Finite (real (unat (1 - d)))) (dones b)))"
  from learn_arrays_Inr [OF assms(1)]
  have r: "rewards b = map reward es"
    and d: "dones b = map (\<lambda>e. uint8_of_bool (done_flag e)) es"
    by (simp_all add: es_def)
  have lq: "length Q_targets_next = length (map Finite (rewards b))"
    and ld: "length (dones b) = length (map Finite (rewards b))"
    using assms(4) r d by (simp_all add: es_def)
  have Q: "learn_Q_targets bk a b = Inr Q"
    unfolding Q_def
    by (simp add: learn_Q_targets_def assms(2,3) Q_targets_of_same_length [OF lq ld])
  have L: "learn bk a experiences = learn_update bk a b Q"
    by (simp add: learn_def assms(1) Q)
  have len: "length Q = length es"
    using lq ld r by (simp add: Q_def)
  have nth: "Q ! i = fl_add (Finite (reward (es ! i)))
                 (fl_mul (fl_mul (Finite (gamma a)) (Q_targets_next ! i))
                    (Finite (1 - (if done_flag (es ! i) then 1 else 0))))"
    if "i < length es" for i
  proof -
    from that r have i: "i < length (map Finite (rewards b))" by simp
    have "Q ! i = fl_add (map Finite (rewards b) ! i)
                    (fl_mul (fl_mul (Finite (gamma a)) (Q_targets_next ! i))
                       (Finite (real (unat (1 - dones b ! i)))))"
      unfolding Q_def using lq ld i by (rule Q_targets_nth)
    moreover have "map Finite (rewards b) ! i = Finite (reward (es ! i))"
      using that by (simp add: r)
    moreover have "real (unat (1 - dones b ! i)) = 1 - (if done_flag (es ! i) then 1 else 0)"
      using that by (simp add: d uint8_of_bool_def)
    ultimately show ?thesis
      by (simp only:)
  qed
  have "\<forall>i < length es.
          Q ! i = fl_add (Finite (reward (es ! i)))
                    (fl_mul (fl_mul (Finite (gamma a)) (Q_targets_next ! i))
                       (Finite (1 - (if done_flag (es ! i) then 1 else 0))))
          \<and> (done_flag (es ! i) \<and> is_finite (Q_targets_next ! i) \<and> \<bar>gamma a\<bar> \<le> 1
               \<longrightarrow> Q ! i = Finite (reward (es ! i)))
          \<and> (done_flag (es ! i) \<and> \<not> is_finite (Q_targets_next ! i) \<longrightarrow> Q ! i = NaN)"
    by (simp add: nth terminal_target)
  with Q L len show ?thesis
    unfolding es_def by blast
qed

theorem learn_Q_targets_terminal_witness:
  "learn_arrays (action_size example_agent) example_experiences = Inr example_batch
   \<and> predict example_backend (models example_agent ActorTarget) (next_states example_batch)
       = Inr [[900], [900]]
   \<and> predict_q example_backend (models example_agent CriticTarget) (next_states example_batch)
         [[900], [900]] = Inr [Finite 100, Finite 100]
   \<and> length [Finite 100, Finite 100] = length (not_None example_experiences)
   \<and> done_flag (not_None example_experiences ! 0)
   \<and> is_finite ([Finite 100, Finite 100] ! 0)
   \<and> \<bar>gamma example_agent\<bar> \<le> 1
   \<and> learn_Q_targets example_backend example_agent example_batch = Inr [Finite 10, Finite 104]"
proof -
  have 1: "learn_arrays (action_size example_agent) example_experiences = Inr example_batch"
    by (simp add: learn_arrays_def example_agent_def example_experiences_def example_batch_def
        not_None_def np_vstack_def np_array_float_def np_reshape_rows_def uint8_of_bool_def)
  have 2: "predict example_backend (models example_agent ActorTarget) (next_states example_batch)
       = Inr [[900], [900]]"
    by (simp add: example_backend_def example_agent_def example_batch_def)
  have 3: "predict_q example_backend (models example_agent CriticTarget) (next_states example_batch)
         [[900], [900]] = Inr [Finite 100, Finite 100]"
    by (simp add: example_backend_def example_batch_def)
  have 4: "length [Finite 100, Finite 100] = length (not_None example_experiences)"
    by (simp add: example_experiences_def not_None_def)
  have 5: "done_flag (not_None example_experiences ! 0)"
    by (simp add: example_experiences_def not_None_def)
  from learn_Q_targets_terminal [OF 1 2 3 4] obtain Q where
    Q: "learn_Q_targets example_backend example_agent example_batch = Inr Q"
    and len: "length Q = length (not_None example_experiences)"
    and nth: "\<forall>i < length (not_None example_experiences).
              Q ! i
                = fl_add (Finite (reward (not_None example_experiences ! i)))
                    (fl_mul (fl_mul (Finite (gamma example_agent)) ([Finite 100, Finite 100] ! i))
                       (Finite (1 - (if done_flag (not_None example_experiences ! i) then 1 else 0))))"
    by blast
  have es: "not_None example_experiences =
      [\<lparr>state = [0, 0], action = [1], reward = 10, next_state = [1, 1], done_flag = True\<rparr>,
       \<lparr>state = [1, 1], action = [2], reward = 5, next_state = [2, 2], done_flag = False\<rparr>]"
    by (simp add: example_experiences_def not_None_def)
  from len have l2: "length Q = 2"
    by (simp add: es)
  from nth have "Q ! 0 = Finite 10" and "Q ! 1 = Finite 104"
    by (simp_all add: es example_agent_def)
  with l2 have "Q = [Finite 10, Finite 104]"
    by (simp add: list_eq_iff_nth_eq less_Suc_eq numeral_2_eq_2)
  moreover have "\<bar>gamma example_agent\<bar> \<le> 1"
    by (simp add: example_agent_def)
  ultimately show ?thesis
    using Q 1 2 3 4 5 by simp
qed

subsection \<open>Acting\<close>

lemma np_reshape_rows_one:
  assumes "0 < n" and "length xs = n"
  shows "np_reshape_rows n xs = Inr [xs]"
  using assms by (simp add: np_reshape_rows_def)

text \<open>
  Claim C5. For a state of \<open>state_size\<close> entries, \<open>act\<close> hands the actor the batch
  \<open>[state]\<close>, takes the first predicted action \<open>p\<close>, draws one noise sample, and
  returns their entrywise sum unchanged, the noise process having moved by that one
  sample. Nothing clips the sum: the example agent, whose \<open>action_high\<close> is 900,
  returns 905.
\<close>

theorem act_no_clipping:
  "(0 < state_size a \<and> length sts = state_size a
      \<and> predict bk (models a Actor) [sts] = Inr (p # rest)
      \<and> length p = length (fst (OUNoise_sample rnd (noise a)))
    \<longrightarrow> act bk rnd a sts =
          Inr (map2 (+) p (fst (OUNoise_sample rnd (noise a))),
               a\<lparr>noise := snd (OUNoise_sample rnd (noise a))\<rparr>))
   \<and> act example_backend (\<lambda>_. 1) example_agent [0, 0] =
        Inr ([905], example_agent\<lparr>noise := (noise example_agent)\<lparr>ou_x := [5]\<rparr>\<rparr>)
   \<and> action_high example_agent < 905"
proof -
  have A: "act bk rnd a sts =
          Inr (map2 (+) p (fst (OUNoise_sample rnd (noise a))),
               a\<lparr>noise := snd (OUNoise_sample rnd (noise a))\<rparr>)"
    if "0 < state_size a" and "length sts = state_size a"
      and "predict bk (models a Actor) [sts] = Inr (p # rest)"
      and "length p = length (fst (OUNoise_sample rnd (noise a)))"
    using that
    by (simp add: act_def np_reshape_rows_one split_def np_elementwise_def Let_def)
  have B: "act example_backend (\<lambda>_. 1) example_agent [0, 0] =
        Inr ([905], example_agent\<lparr>noise := (noise example_agent)\<lparr>ou_x := [5]\<rparr>\<rparr>)"
    by (simp add: act_def example_agent_def example_backend_def np_reshape_rows_def
        OUNoise_sample_def OUNoise_init_def OUNoise_reset_def np_elementwise_def Let_def)
  have C: "action_high example_agent < 905"
    by (simp add: example_agent_def)
  from A B C show ?thesis
    by blast
qed

theorem act_no_clipping_witness:
  "0 < state_size example_agent \<and> length [0, 0 :: real] = state_size example_agent
   \<and> predict example_backend (models example_agent Actor) [[0, 0]] = Inr ([900] # [])
   \<and> length [900 :: real] = length (fst (OUNoise_sample (\<lambda>_. 1) (noise example_agent)))
   \<and> act example_backend (\<lambda>_. 1) example_agent [0, 0] =
          Inr (map2 (+) [900] (fst (OUNoise_sample (\<lambda>_. 1) (noise example_agent))),
               example_agent\<lparr>noise := snd (OUNoise_sample (\<lambda>_. 1) (noise example_agent))\<rparr>)"
proof -
  have 1: "0 < state_size example_agent \<and> length [0, 0 :: real] = state_size example_agent"
    by (simp add: example_agent_def)
  have 2: "predict example_backend (models example_agent Actor) [[0, 0]] = Inr ([900] # [])"
    by (simp add: example_agent_def example_backend_def)
  have 3: "length [900 :: real] = length (fst (OUNoise_sample (\<lambda>_. 1) (noise example_agent)))"
    by (simp add: example_agent_def OUNoise_sample_def OUNoise_init_def OUNoise_reset_def Let_def)
  from act_no_clipping [of example_agent "[0, 0]" example_backend "[900]" "[]" "\<lambda>_. 1"] 1 2 3
  show ?thesis
    by blast
qed

subsection \<open>Steps\<close>

lemma learn_update_only_models:
  assumes "learn_update bk a b Q = Inr a'"
  shows "a' = a\<lparr>models := models a'\<rparr>"
proof -
  from assms obtain ms a1 where
    1: "soft_update (a\<lparr>models := ms\<rparr>) Critic CriticTarget = Inr a1"
    and 2: "soft_update a1 Actor ActorTarget = Inr a'"
    by (auto simp: learn_update_def bind_eq_Inr)
  from soft_update_only_models [OF 1] have "a1 = a\<lparr>models := models a1\<rparr>"
    by simp
  with soft_update_only_models [OF 2] have "a' = a\<lparr>models := models a1, models := models a'\<rparr>"
    by simp
  then show ?thesis
    by simp
qed

lemma learn_only_models:
  "learn bk a experiences = Inr a' \<Longrightarrow> a' = a\<lparr>models := models a'\<rparr>"
  by (auto simp: learn_def bind_eq_Inr dest: learn_update_only_models)

lemma step_unfold:
  assumes "total_reward a = Some so_far" and "last_state a = Some st"
  shows "step bk picks a act_taken r next_st done =
           (let a2 = a\<lparr>total_reward := Some (so_far + r), num_steps := num_steps a + 1,
                       memory := ReplayBuffer_add (memory a) st act_taken r next_st done\<rparr>
            in if batch_size a < ReplayBuffer_len (memory a2)
               then bind (learn bk a2 (ReplayBuffer_sample (memory a2) picks))
                      (\<lambda>a3. Inr (a3\<lparr>last_state := Some next_st\<rparr>))
               else Inr (a2\<lparr>last_state := Some next_st\<rparr>))"
  using assms by (simp add: step_def Let_def)

lemma step_Inr:
  assumes "step bk picks a act_taken r next_st done = Inr a'"
  shows "\<exists>so_far st ms.
           total_reward a = Some so_far \<and> last_state a = Some st
         \<and> a' = a\<lparr>total_reward := Some (so_far + r), num_steps := num_steps a + 1,
                   memory := ReplayBuffer_add (memory a) st act_taken r next_st done,
                   last_state := Some next_st, models := ms\<rparr>
         \<and> (\<not> batch_size a < ReplayBuffer_len (ReplayBuffer_add (memory a) st act_taken r next_st done)
              \<longrightarrow> ms = models a)"
proof -
  from assms obtain so_far where t: "total_reward a = Some so_far"
    by (auto simp: step_def split: option.splits)
  from assms t obtain st where l: "last_state a = Some st"
    by (auto simp: step_def Let_def split: option.splits)
  define a2 where "a2 = a\<lparr>total_reward := Some (so_far + r), num_steps := num_steps a + 1,
                       memory := ReplayBuffer_add (memory a) st act_taken r next_st done\<rparr>"
  show ?thesis
  proof (cases "batch_size a < ReplayBuffer_len (memory a2)")
    case True
    with assms obtain a3 where 3: "learn bk a2 (ReplayBuffer_sample (memory a2) picks) = Inr a3"
      and a': "a' = a3\<lparr>last_state := Some next_st\<rparr>"
      unfolding step_unfold [OF t l] a2_def [symmetric] Let_def
      by (auto simp: bind_eq_Inr)
    from learn_only_models [OF 3] have "a3 = a2\<lparr>models := models a3\<rparr>" .
    with a' have "a' = a2\<lparr>models := models a3, last_state := Some next_st\<rparr>"
      by simp
    with t l True show ?thesis
      by (intro exI [of _ so_far] exI [of _ st] exI [of _ "models a3"]) (simp add: a2_def)
  next
    case False
    with assms have "a' = a2\<lparr>last_state := Some next_st\<rparr>"
      unfolding step_unfold [OF t l] a2_def [symmetric] Let_def
      by simp
    with t l False show ?thesis
      by (intro exI [of _ so_far] exI [of _ st] exI [of _ "models a"]) (simp add: a2_def)
  qed
qed

text \<open>
  Claim C3. In an episode that has begun (\<open>total_reward\<close> and \<open>last_state\<close> assigned),
  \<open>step\<close> adds the reward to \<open>total_reward\<close> and one to \<open>num_steps\<close>, adds the transition
  \<open>(last_state, action, reward, next_state, done)\<close> to the replay buffer, samples a batch
  and runs \<open>learn\<close> on it exactly when the buffer then holds more than \<open>batch_size\<close>
  transitions, and ends with \<open>last_state = next_state\<close>. Without learning no network
  changes.
\<close>

theorem step_effect:
  assumes "total_reward a = Some so_far" and "last_state a = Some st"
  shows "step bk picks a act_taken r next_st done =
           (let a2 = a\<lparr>total_reward := Some (so_far + r), num_steps := num_steps a + 1,
                       memory := ReplayBuffer_add (memory a) st act_taken r next_st done\<rparr>
            in if batch_size a < ReplayBuffer_len (memory a2)
               then bind (learn bk a2 (ReplayBuffer_sample (memory a2) picks))
                      (\<lambda>a3. Inr (a3\<lparr>last_state := Some next_st\<rparr>))
               else Inr (a2\<lparr>last_state := Some next_st\<rparr>))
       \<and> (\<forall>a'. step bk picks a act_taken r next_st done = Inr a' \<longrightarrow>
               total_reward a' = Some (so_far + r)
             \<and> num_steps a' = num_steps a + 1
             \<and> memory a' = ReplayBuffer_add (memory a) st act_taken r next_st done
             \<and> last (entries (memory a'))
                 = \<lparr>state = st, action = act_taken, reward = r, next_state = next_st,
                    done_flag = done\<rparr>
             \<and> last_state a' = Some next_st
             \<and> (\<not> batch_size a < ReplayBuffer_len (memory a') \<longrightarrow> models a' = models a))"
proof -
  have "total_reward a' = Some (so_far + r)
             \<and> num_steps a' = num_steps a + 1
             \<and> memory a' = ReplayBuffer_add (memory a) st act_taken r next_st done
             \<and> last (entries (memory a'))
                 = \<lparr>state = st, action = act_taken, reward = r, next_state = next_st,
                    done_flag = done\<rparr>
             \<and> last_state a' = Some next_st
             \<and> (\<not> batch_size a < ReplayBuffer_len (memory a') \<longrightarrow> models a' = models a)"
    if "step bk picks a act_taken r next_st done = Inr a'" for a'
  proof -
    from step_Inr [OF that] assms obtain ms where
      a': "a' = a\<lparr>total_reward := Some (so_far + r), num_steps := num_steps a + 1,
                   memory := ReplayBuffer_add (memory a) st act_taken r next_st done,
                   last_state := Some next_st, models := ms\<rparr>"
      and ms: "\<not> batch_size a < ReplayBuffer_len (ReplayBuffer_add (memory a) st act_taken r next_st done)
              \<longrightarrow> ms = models a"
      by auto
    from ms show ?thesis
      by (simp add: a' ReplayBuffer_add_def Let_def)
  qed
  with step_unfold [OF assms] show ?thesis
    by blast
qed

theorem step_effect_witness:
  "total_reward (example_agent\<lparr>total_reward := Some 0, last_state := Some [0, 0]\<rparr>) = Some 0
   \<and> last_state (example_agent\<lparr>total_reward := Some 0, last_state := Some [0, 0]\<rparr>) = Some [0, 0]
   \<and> step example_backend [] (example_agent\<lparr>total_reward := Some 0, last_state := Some [0, 0]\<rparr>)
        [1] 10 [1, 1] True
      = Inr (example_agent\<lparr>total_reward := Some 10, num_steps := 1, last_state := Some [1, 1],
               memory := \<lparr>entries = [\<lparr>state = [0, 0], action = [1], reward = 10,
                                        next_state = [1, 1], done_flag = True\<rparr>],
                           capacity = 100000, sample_size = 16\<rparr>\<rparr>)
   \<and> models (example_agent\<lparr>total_reward := Some 10, num_steps := 1, last_state := Some [1, 1],
               memory := \<lparr>entries = [\<lparr>state = [0, 0], action = [1], reward = 10,
                                        next_state = [1, 1], done_flag = True\<rparr>],
                           capacity = 100000, sample_size = 16\<rparr>\<rparr>) = models example_agent
   \<and> step example_backend [1]
     (example_agent\<lparr>total_reward := Some 0, last_state := Some [0, 0], batch_size := 1,
        memory := \<lparr>entries = [\<lparr>state = [0, 0], action = [2], reward = 5,
                                 next_state = [0, 0], done_flag = False\<rparr>],
                    capacity = 100000, sample_size = 1\<rparr>\<rparr>)
     [1] 10 [1, 1] True
   = Inr (example_agent\<lparr>total_reward := Some 10, num_steps := 1, last_state := Some [1, 1],
        batch_size := 1,
        memory := \<lparr>entries = [\<lparr>state = [0, 0], action = [2], reward = 5,
                                 next_state = [0, 0], done_flag = False\<rparr>,
                               \<lparr>state = [0, 0], action = [1], reward = 10,
                                 next_state = [1, 1], done_flag = True\<rparr>],
                    capacity = 100000, sample_size = 1\<rparr>,
        models := example_models
          (Critic := example_model [vector [11]],
           Actor := example_model [vector [900], vector [3, 4]],
           CriticTarget := example_model [vector [2, 29 / 10, 38 / 10]],
           ActorTarget := example_model [vector [540], vector [57 / 10, 67 / 10]])\<rparr>)"
proof -
  define ag where "ag = example_agent\<lparr>total_reward := Some 0, last_state := Some [0, 0]\<rparr>"
  have 1: "total_reward ag = Some 0" and 2: "last_state ag = Some [0, 0]"
    by (simp_all add: ag_def)
  from step_effect [OF 1 2, of example_backend "[]" "[1]" 10 "[1, 1]" True]
  have N: "step example_backend [] ag [1] 10 [1, 1] True
      = Inr (example_agent\<lparr>total_reward := Some 10, num_steps := 1, last_state := Some [1, 1],
               memory := \<lparr>entries = [\<lparr>state = [0, 0], action = [1], reward = 10,
                                        next_state = [1, 1], done_flag = True\<rparr>],
                           capacity = 100000, sample_size = 16\<rparr>\<rparr>)"
    by (simp add: ag_def example_agent_def ReplayBuffer_init_def ReplayBuffer_add_def
        ReplayBuffer_len_def Let_def)

  define ag2 where "ag2 = example_agent\<lparr>total_reward := Some 0, last_state := Some [0, 0],
        batch_size := 1,
        memory := \<lparr>entries = [\<lparr>state = [0, 0], action = [2], reward = 5,
                                 next_state = [0, 0], done_flag = False\<rparr>],
                    capacity = 100000, sample_size = 1\<rparr>\<rparr>"
  have 3: "total_reward ag2 = Some 0" and 4: "last_state ag2 = Some [0, 0]"
    by (simp_all add: ag2_def)
  from step_effect [OF 3 4, of example_backend "[1]" "[1]" 10 "[1, 1]" True]
  have "step example_backend [1] ag2 [1] 10 [1, 1] True =
     (let a2 = ag2\<lparr>total_reward := Some (0 + 10), num_steps := num_steps ag2 + 1,
                       memory := ReplayBuffer_add (memory ag2) [0, 0] [1] 10 [1, 1] True\<rparr>
            in if batch_size ag2 < ReplayBuffer_len (memory a2)
               then bind (learn example_backend a2 (ReplayBuffer_sample (memory a2) [1]))
                      (\<lambda>a3. Inr (a3\<lparr>last_state := Some [1, 1]\<rparr>))
               else Inr (a2\<lparr>last_state := Some [1, 1]\<rparr>))"
    by blast
  then have L: "step example_backend [1]
     (example_agent\<lparr>total_reward := Some 0, last_state := Some [0, 0], batch_size := 1,
        memory := \<lparr>entries = [\<lparr>state = [0, 0], action = [2], reward = 5,
                                 next_state = [0, 0], done_flag = False\<rparr>],
                    capacity = 100000, sample_size = 1\<rparr>\<rparr>)
     [1] 10 [1, 1] True
   = Inr (example_agent\<lparr>total_reward := Some 10, num_steps := 1, last_state := Some [1, 1],
        batch_size := 1,
        memory := \<lparr>entries = [\<lparr>state = [0, 0], action = [2], reward = 5,
                                 next_state = [0, 0], done_flag = False\<rparr>,
                               \<lparr>state = [0, 0], action = [1], reward = 10,
                                 next_state = [1, 1], done_flag = True\<rparr>],
                    capacity = 100000, sample_size = 1\<rparr>,
        models := example_models
          (Critic := example_model [vector [11]],
           Actor := example_model [vector [900], vector [3, 4]],
           CriticTarget := example_model [vector [2, 29 / 10, 38 / 10]],
           ActorTarget := example_model [vector [540], vector [57 / 10, 67 / 10]])\<rparr>)"
    unfolding ag2_def
    by (simp add: learn_def learn_arrays_def learn_Q_targets_def learn_update_def
      Q_targets_of_def soft_update_def get_weights_def set_weights_def
      np_array_def same_shapes_def same_first_axis_def np_broadcast_def upt_3 vector_def
      np_scale_def np_elementwise_def
      not_None_def np_vstack_def np_array_float_def np_reshape_rows_def uint8_of_bool_def
      example_agent_def example_backend_def example_models_def example_model_def
      ReplayBuffer_add_def ReplayBuffer_len_def ReplayBuffer_sample_def Let_def)
  from N L 1 2 show ?thesis
    by (simp add: ag_def)
qed

subsection \<open>The best score\<close>

lemma less_score_simps [simp]:
  "NegInf < Fin x" "\<not> s < NegInf" "Fin x < Fin y \<longleftrightarrow> x < y"
  by (cases s; auto simp: less_score_def)+

lemma reset_episode_best_score:
  assumes "reset_episode bk a = Inr (s0, a')"
  shows "best_score a \<le> best_score a'"
proof -
  from assms obtain s a1 where s: "get_score a = Inr s"
    and a1: "(if s > best_score a then bind (get_score a) (\<lambda>s'. Inr (a\<lparr>best_score := s'\<rparr>)) else Inr a)
             = Inr a1"
    and a': "best_score a' = best_score a1"
    by (auto simp: reset_episode_def bind_eq_Inr Let_def split_def)
  from s a1 have "best_score a \<le> best_score a1"
    by (auto split: if_splits)
  with a' show ?thesis
    by simp
qed

lemma act_only_noise:
  assumes "act bk rnd a sts = Inr (noisy, a')"
  shows "a' = a\<lparr>noise := snd (OUNoise_sample rnd (noise a))\<rparr>"
proof -
  from assms obtain predicted where
    r: "(case predicted of
         [] \<Rightarrow> Inl IndexError
       | first # _ \<Rightarrow>
           bind (np_elementwise (+) first (fst (OUNoise_sample rnd (noise a))))
             (\<lambda>noisy. Inr (noisy, a\<lparr>noise := snd (OUNoise_sample rnd (noise a))\<rparr>)))
        = Inr (noisy, a')"
    by (auto simp: act_def bind_eq_Inr Let_def split_def)
  from r show ?thesis
    by (cases predicted) (auto simp: bind_eq_Inr)
qed

lemma act_best_score: "act bk rnd a sts = Inr (noisy, a') \<Longrightarrow> best_score a' = best_score a"
  by (drule act_only_noise) simp

lemma exec_call_best_score:
  assumes "exec_call bk a c = Inr a'"
  shows "(c \<noteq> ResetEpisode \<longrightarrow> best_score a' = best_score a) \<and> best_score a \<le> best_score a'"
proof (cases c)
  case (Act rnd sts)
  with assms show ?thesis
    by (auto simp: bind_eq_Inr dest: act_best_score)
next
  case (Step picks act_taken r next_st d)
  with assms have "step bk picks a act_taken r next_st d = Inr a'"
    by simp
  from step_Inr [OF this] Step show ?thesis
    by auto
next
  case (Learn experiences)
  with assms have "learn bk a experiences = Inr a'"
    by simp
  from learn_only_models [OF this] have "best_score a' = best_score (a\<lparr>models := models a'\<rparr>)"
    by simp
  with Learn show ?thesis
    by simp
next
  case GetScore
  with assms show ?thesis
    by (auto simp: bind_eq_Inr)
next
  case ResetEpisode
  with assms show ?thesis
    by (auto simp: bind_eq_Inr dest: reset_episode_best_score)
next
  case (SoftUpdate l t)
  with assms have "soft_update a l t = Inr a'"
    by simp
  from soft_update_only_models [OF this] have "best_score a' = best_score (a\<lparr>models := models a'\<rparr>)"
    by simp
  with SoftUpdate show ?thesis
    by simp
qed

lemma run_best_score: "run bk a cs = Inr a' \<Longrightarrow> best_score a \<le> best_score a'"
proof (induction cs arbitrary: a)
  case Nil
  then show ?case by simp
next
  case (Cons c cs)
  then obtain a1 where 1: "exec_call bk a c = Inr a1" and 2: "run bk a1 cs = Inr a'"
    by (auto simp: bind_eq_Inr)
  from exec_call_best_score [OF 1] have "best_score a \<le> best_score a1"
    by simp
  also from Cons.IH [OF 2] have "best_score a1 \<le> best_score a'" .
  finally show ?case .
qed

lemma DDPGAgent_init_best_score: "DDPGAgent_init tk fresh = Inr a0 \<Longrightarrow> best_score a0 = NegInf"
  by (auto simp: DDPGAgent_init_def bind_eq_Inr)

text \<open>
  Claim C9. \<open>__init__\<close> sets \<open>best_score\<close> to \<open>-inf\<close>; no method other than
  \<open>reset_episode\<close> changes it; and over any sequence of calls of \<open>act\<close>, \<open>step\<close>, \<open>learn\<close>,
  \<open>get_score\<close>, \<open>reset_episode\<close> and \<open>soft_update\<close> that runs through, it never
  decreases.
\<close>

theorem best_score_running_maximum:
  "(\<forall>a0. DDPGAgent_init tk fresh = Inr a0 \<longrightarrow> best_score a0 = NegInf)
   \<and> (\<forall>a'. exec_call bk a c = Inr a' \<longrightarrow> c \<noteq> ResetEpisode \<longrightarrow> best_score a' = best_score a)
   \<and> (\<forall>a'. run bk a cs = Inr a' \<longrightarrow> best_score a \<le> best_score a')"
  using DDPGAgent_init_best_score [of tk fresh] exec_call_best_score [of bk a c]
    run_best_score [of bk a cs]
  by blast

theorem best_score_running_maximum_witness:
  "DDPGAgent_init example_task (\<lambda>_. example_model [vector [1], vector [2, 3]])
     = Inr (example_agent\<lparr>models := \<lambda>_. example_model [vector [1], vector [2, 3]]\<rparr>)
   \<and> best_score (example_agent\<lparr>models := \<lambda>_. example_model [vector [1], vector [2, 3]]\<rparr>) = NegInf
   \<and> exec_call example_backend example_agent GetScore = Inr example_agent
   \<and> GetScore \<noteq> ResetEpisode
   \<and> run example_backend example_agent
        [ResetEpisode, Act (\<lambda>_. 1) [0, 0], Step [] [905] 10 [1, 1] False, GetScore, ResetEpisode]
      = Inr (example_agent\<lparr>best_score := Fin 10, last_state := Some [0, 0],
               total_reward := Some 0,
               memory := \<lparr>entries = [\<lparr>state = [0, 0], action = [905], reward = 10,
                                        next_state = [1, 1], done_flag = False\<rparr>],
                           capacity = 100000, sample_size = 16\<rparr>\<rparr>)
   \<and> best_score example_agent
       \<le> best_score (example_agent\<lparr>best_score := Fin 10, last_state := Some [0, 0],
               total_reward := Some 0,
               memory := \<lparr>entries = [\<lparr>state = [0, 0], action = [905], reward = 10,
                                        next_state = [1, 1], done_flag = False\<rparr>],
                           capacity = 100000, sample_size = 16\<rparr>\<rparr>)"
proof -
  have "(\<lambda>_. example_model [vector [1], vector [2, 3]])
          (CriticTarget := example_model [vector [1], vector [2, 3]], ActorTarget := example_model [vector [1], vector [2, 3]])
        = (\<lambda>_. example_model [vector [1], vector [2, 3]])"
    by (rule ext) simp
  then have 1: "DDPGAgent_init example_task (\<lambda>_. example_model [vector [1], vector [2, 3]])
     = Inr (example_agent\<lparr>models := \<lambda>_. example_model [vector [1], vector [2, 3]]\<rparr>)"
    by (simp add: DDPGAgent_init_def set_weights_def get_weights_def example_model_def
        example_agent_def example_task_def)
  have 2: "exec_call example_backend example_agent GetScore = Inr example_agent"
    by (simp add: get_score_def example_agent_def)
  have 3: "run example_backend example_agent
        [ResetEpisode, Act (\<lambda>_. 1) [0, 0], Step [] [905] 10 [1, 1] False, GetScore, ResetEpisode]
      = Inr (example_agent\<lparr>best_score := Fin 10, last_state := Some [0, 0],
               total_reward := Some 0,
               memory := \<lparr>entries = [\<lparr>state = [0, 0], action = [905], reward = 10,
                                        next_state = [1, 1], done_flag = False\<rparr>],
                           capacity = 100000, sample_size = 16\<rparr>\<rparr>)"
    by (simp add: reset_episode_def get_score_def act_def step_def
        np_reshape_rows_def np_elementwise_def Let_def
        example_agent_def example_backend_def example_models_def example_model_def example_task_def
        ReplayBuffer_init_def ReplayBuffer_add_def ReplayBuffer_len_def
        OUNoise_init_def OUNoise_reset_def OUNoise_sample_def)
  from best_score_running_maximum [of example_task "\<lambda>_. example_model [vector [1], vector [2, 3]]"
      example_backend example_agent GetScore
      "[ResetEpisode, Act (\<lambda>_. 1) [0, 0], Step [] [905] 10 [1, 1] False, GetScore, ResetEpisode]"]
    1 2 3
  show ?thesis
    by simp
qed

end
